theory Spec2Isabelle
  imports Complex_Main
begin

section \<open>The letter animation script\<close>

text \<open>
  The file \<^verbatim>\<open>src/index.ts\<close> holds the script in two copies. The first copy (lines 1-342)
  checks a new letter against the bodies of the world before it adds it and tracks
  the previous scroll offset; the second copy (lines 344-647) does neither. The two
  copies share the shape of every function and differ in constants and in a few
  statements, so the model takes the copy as a parameter.

  JavaScript numbers are modelled as real numbers; counters that the script only
  initialises with 0 and increments are natural numbers.
\<close>

datatype variant = V1 | V2

subsection \<open>Vectors and bodies of the physics library\<close>

type_synonym vec = "real \<times> real"

definition Vector_sub :: "vec \<Rightarrow> vec \<Rightarrow> vec" where
  "Vector_sub a b = (fst a - fst b, snd a - snd b)"

definition Vector_magnitude :: "vec \<Rightarrow> real" where
  "Vector_magnitude a = sqrt (fst a * fst a + snd a * snd a)"

definition Vector_mult :: "vec \<Rightarrow> real \<Rightarrow> vec" where
  "Vector_mult a s = (fst a * s, snd a * s)"

definition Vector_normalise :: "vec \<Rightarrow> vec" where
  "Vector_normalise a =
     (let m = Vector_magnitude a
      in if m = 0 then (0, 0) else (fst a / m, snd a / m))"

type_synonym vertex_sets = "vec list list"

record render_options =
  fillStyle :: "string option"
  strokeStyle :: "string option"
  lineWidth :: real

record body =
  position :: vec
  angle :: real
  force :: vec
  torque :: real
  vertices :: vertex_sets
  render :: render_options

record collision =
  collided :: bool

datatype error = TypeError | FetchError string

definition Body_rotate :: "body \<Rightarrow> real \<Rightarrow> body" where
  "Body_rotate b rotation = b\<lparr>angle := angle b + rotation\<rparr>"

definition Body_applyForce :: "body \<Rightarrow> vec \<Rightarrow> vec \<Rightarrow> body" where
  "Body_applyForce b pos f =
     (let offset = (fst pos - fst (position b), snd pos - snd (position b))
      in b\<lparr>force := (fst (force b) + fst f, snd (force b) + snd f),
            torque := torque b + (fst offset * snd f - snd offset * fst f)\<rparr>)"

subsection \<open>Environment and state\<close>

text \<open>
  What the script cannot control is the environment: the values that successive calls
  of \<^verbatim>\<open>Math.random\<close> and of the library's own generator (used by
  \<^verbatim>\<open>Common.choose\<close> and by \<^verbatim>\<open>Body.create\<close>) return, the library's collision
  test, the number of bodies that the library makes for an outline (the convex parts
  and their compound), and the vertex outlines that each asset file yields (\<open>None\<close>
  when the fetch fails).
\<close>

record env =
  mathRandom :: "nat \<Rightarrow> real"
  commonRandom :: "nat \<Rightarrow> real"
  collides :: "body \<Rightarrow> body \<Rightarrow> collision option"
  bodiesMade :: "vertex_sets \<Rightarrow> nat"
  assets :: "string \<Rightarrow> vertex_sets option"

type_synonym grid_key = "int \<times> int"

record state =
  mathCalls :: nat
  commonCalls :: nat
  world :: "body list"
  loadedVertexSets :: "vertex_sets list"
  fetched :: "string list"
  warnings :: "string list"
  lettersSpawned :: bool
  activeTimers :: "nat set"
  nextTimerId :: nat
  viewportWidth :: real
  totalLetters :: real
  lettersSpawnedCount :: nat
  occupiedGridCells :: "grid_key set"
  spawnIntervalId :: nat
  spawnDelay :: "real option"
  previousScrollY :: real

definition Math_random :: "env \<Rightarrow> state \<Rightarrow> real \<times> state" where
  "Math_random e st = (mathRandom e (mathCalls st), st\<lparr>mathCalls := Suc (mathCalls st)\<rparr>)"

definition Common_random :: "env \<Rightarrow> state \<Rightarrow> real \<times> state" where
  "Common_random e st =
     (commonRandom e (commonCalls st), st\<lparr>commonCalls := Suc (commonCalls st)\<rparr>)"

text \<open>Reading \<open>xs[i]\<close>: \<open>undefined\<close> outside the array.\<close>

definition index :: "'a list \<Rightarrow> int \<Rightarrow> 'a option" where
  "index xs i = (if 0 \<le> i \<and> nat i < length xs then Some (xs ! nat i) else None)"

definition Common_choose :: "env \<Rightarrow> 'a list \<Rightarrow> state \<Rightarrow> 'a option \<times> state" where
  "Common_choose e choices st =
     (let (r, st1) = Common_random e st
      in (index choices \<lfloor>r * real (length choices)\<rfloor>, st1))"

text \<open>
  \<^verbatim>\<open>Bodies.fromVertices(x, y, vertexSets, options, true)\<close>: a body at \<open>(x, y)\<close> that
  carries the given outlines and render options. The library reads \<open>vertexSets[0]\<close>
  first, which raises a TypeError when \<open>vertexSets\<close> is \<open>undefined\<close>; an empty array
  of outlines is treated as one outline without vertices, on which the decomposition
  raises a TypeError too. Otherwise \<^verbatim>\<open>Body.create\<close> runs once for every body
  that the library makes, and each run draws a default fill colour from the library's
  generator, whether or not the options give a colour. What the library makes of the
  outlines (hulls, decomposition into convex parts) is not modelled; the collision
  test, which depends on it, is a parameter of the environment. The library replaces
  a fill or stroke style that the options leave out by a default; the model keeps the
  options as they are given.
\<close>

definition Bodies_fromVertices ::
  "env \<Rightarrow> real \<Rightarrow> real \<Rightarrow> vertex_sets option \<Rightarrow> render_options \<Rightarrow> state
     \<Rightarrow> (error + body) \<times> state" where
  "Bodies_fromVertices e x y vertexSets opts st =
     (case vertexSets of
        None \<Rightarrow> (Inl TypeError, st)
      | Some [] \<Rightarrow> (Inl TypeError, st)
      | Some (vs # vss) \<Rightarrow>
          (Inr \<lparr>position = (x, y), angle = 0, force = (0, 0), torque = 0,
                vertices = vs # vss, render = opts\<rparr>,
           st\<lparr>commonCalls := commonCalls st + bodiesMade e (vs # vss)\<rparr>))"

subsection \<open>Spawn positions\<close>

definition spacing :: real where
  "spacing = 75"

definition gridSize :: real where
  "gridSize = spacing"

definition maxHeightAboveViewport :: real where
  "maxHeightAboveViewport = 50"

definition spawnAreaWidth :: "real \<Rightarrow> real" where
  "spawnAreaWidth vw = vw * 0.6"

fun startX :: "variant \<Rightarrow> real \<Rightarrow> real" where
  "startX V1 vw = vw - spawnAreaWidth vw - 40"
| "startX V2 vw = vw - spawnAreaWidth vw"

fun maxAttempts :: "variant \<Rightarrow> nat" where
  "maxAttempts V1 = 25"
| "maxAttempts V2 = 100"

text \<open>The constant that starts the \<open>y\<close> coordinate: \<open>-100\<close> and \<open>-20\<close>.\<close>

fun baseY :: "variant \<Rightarrow> real" where
  "baseY V1 = - 100"
| "baseY V2 = - 20"

text \<open>
  The key \<^verbatim>\<open>`${Math.floor(x / gridSize)},${Math.floor(y / gridSize)}`\<close> is the pair of
  the two integers: the decimal rendering of a pair of integers with a comma between
  them determines the pair.
\<close>

definition gridKey :: "vec \<Rightarrow> grid_key" where
  "gridKey p = (\<lfloor>fst p / gridSize\<rfloor>, \<lfloor>snd p / gridSize\<rfloor>)"

definition gridPosition :: "variant \<Rightarrow> real \<Rightarrow> real \<Rightarrow> real \<Rightarrow> vec" where
  "gridPosition v vw r1 r2 =
     (startX v vw + of_int \<lfloor>(r1 * spawnAreaWidth vw) / gridSize\<rfloor> * gridSize,
      baseY v + of_int \<lfloor>(r2 * maxHeightAboveViewport) / gridSize\<rfloor> * gridSize)"

definition defaultPosition :: "variant \<Rightarrow> real \<Rightarrow> real \<Rightarrow> real \<Rightarrow> vec" where
  "defaultPosition v vw r1 r2 =
     (startX v vw + r1 * spawnAreaWidth vw, baseY v + r2 * maxHeightAboveViewport)"

text \<open>
  \<open>getUniquePosition\<close> returns from two places; the result records which:
  \<open>Grid\<close> from inside the retry loop, \<open>Default\<close> after it.
\<close>

datatype position_result = Grid vec | Default vec

fun coords :: "position_result \<Rightarrow> vec" where
  "coords (Grid p) = p"
| "coords (Default p) = p"

function getUniquePosition_loop ::
  "variant \<Rightarrow> env \<Rightarrow> nat \<Rightarrow> state \<Rightarrow> position_result \<times> state" where
  "getUniquePosition_loop v e attempts st =
     (if attempts < maxAttempts v then
        (let (r1, st1) = Math_random e st;
             (r2, st2) = Math_random e st1;
             p = gridPosition v (viewportWidth st2) r1 r2
         in if gridKey p \<notin> occupiedGridCells st2
            then (Grid p,
                  st2\<lparr>occupiedGridCells := insert (gridKey p) (occupiedGridCells st2)\<rparr>)
            else getUniquePosition_loop v e (attempts + 1) st2)
      else
        (let (r1, st1) = Math_random e st;
             (r2, st2) = Math_random e st1
         in (Default (defaultPosition v (viewportWidth st2) r1 r2), st2)))"
  by pat_completeness auto
termination
  by (relation "measure (\<lambda>(v, e, attempts, st). maxAttempts v - attempts)") auto

definition getUniquePosition :: "variant \<Rightarrow> env \<Rightarrow> state \<Rightarrow> position_result \<times> state" where
  "getUniquePosition v e st = getUniquePosition_loop v e 0 st"

text \<open>
  The grid position that the iteration \<open>k\<close> of the loop computes (counting from 0)
  when \<open>getUniquePosition\<close> is called in the state \<open>st\<close>: every iteration draws two
  random numbers.
\<close>

definition attemptPosition :: "variant \<Rightarrow> env \<Rightarrow> state \<Rightarrow> nat \<Rightarrow> vec" where
  "attemptPosition v e st k =
     gridPosition v (viewportWidth st)
       (mathRandom e (mathCalls st + 2 * k)) (mathRandom e (mathCalls st + 2 * k + 1))"

text \<open>
  A sequence of calls of \<open>getUniquePosition\<close> inside one \<open>spawnLetters\<close> closure.
  Between two calls the script draws other random numbers (the letter, the angle);
  \<open>skip\<close> is how many.
\<close>

fun getUniquePositions ::
  "variant \<Rightarrow> env \<Rightarrow> nat list \<Rightarrow> state \<Rightarrow> position_result list \<times> state" where
  "getUniquePositions v e [] st = ([], st)"
| "getUniquePositions v e (skip # skips) st =
     (let (r, st1) = getUniquePosition v e (st\<lparr>mathCalls := mathCalls st + skip\<rparr>);
          (rs, st2) = getUniquePositions v e skips st1
      in (r # rs, st2))"

fun gridResults :: "position_result list \<Rightarrow> vec list" where
  "gridResults [] = []"
| "gridResults (Grid p # rs) = p # gridResults rs"
| "gridResults (Default p # rs) = gridResults rs"

subsection \<open>Timers\<close>

definition setInterval :: "state \<Rightarrow> nat \<times> state" where
  "setInterval st =
     (nextTimerId st,
      st\<lparr>activeTimers := insert (nextTimerId st) (activeTimers st),
         nextTimerId := Suc (nextTimerId st)\<rparr>)"

definition clearInterval :: "nat \<Rightarrow> state \<Rightarrow> state" where
  "clearInterval i st = st\<lparr>activeTimers := activeTimers st - {i}\<rparr>"

subsection \<open>Spawning letters\<close>

text \<open>
  \<open>spawnLetters(totalLetters, spawnInterval)\<close>. The variables of its closure
  (\<open>viewportWidth\<close>, \<open>occupiedGridCells\<close>, \<open>lettersSpawnedCount\<close>, \<open>spawnIntervalId\<close>)
  are fields of the state; the flag \<open>lettersSpawned\<close> lets at most one closure exist.
  \<open>innerWidth\<close> is \<open>window.innerWidth\<close> at the time of the call; the delay is
  \<open>None\<close> where the caller leaves it out.
\<close>

definition spawnLetters :: "real \<Rightarrow> real option \<Rightarrow> real \<Rightarrow> state \<Rightarrow> state" where
  "spawnLetters letters spawnInterval innerWidth st =
     (if lettersSpawned st then st
      else
        (let st1 = st\<lparr>lettersSpawned := True, viewportWidth := innerWidth,
                      totalLetters := letters, lettersSpawnedCount := 0,
                      occupiedGridCells := {}\<rparr>;
             (i, st2) = setInterval st1
         in st2\<lparr>spawnIntervalId := i, spawnDelay := spawnInterval\<rparr>))"

fun doesOverlap_loop :: "env \<Rightarrow> body \<Rightarrow> body list \<Rightarrow> bool" where
  "doesOverlap_loop e newBody [] = False"
| "doesOverlap_loop e newBody (b # bodies) =
     (case collides e newBody b of
        None \<Rightarrow> doesOverlap_loop e newBody bodies
      | Some c \<Rightarrow> if collided c then True else doesOverlap_loop e newBody bodies)"

definition doesOverlap :: "env \<Rightarrow> state \<Rightarrow> body \<Rightarrow> bool" where
  "doesOverlap e st newBody = doesOverlap_loop e newBody (world st)"

text \<open>
  The statements that both copies use to create a letter: the colour from
  \<open>Common.choose\<close>, then \<open>Bodies.fromVertices\<close> with that colour as fill and stroke.
\<close>

definition createLetter ::
  "env \<Rightarrow> vec \<Rightarrow> vertex_sets option \<Rightarrow> state \<Rightarrow> (error + body) \<times> state" where
  "createLetter e p vertexSets st =
     (let (color, st1) = Common_choose e [''#CF6337''] st
      in Bodies_fromVertices e (fst p) (snd p) vertexSets
           \<lparr>fillStyle = color, strokeStyle = color, lineWidth = 1\<rparr> st1)"

definition Composite_add :: "body \<Rightarrow> state \<Rightarrow> state" where
  "Composite_add b st = st\<lparr>world := world st @ [b]\<rparr>"

text \<open>The last statement of \<open>spawnLetter\<close> in both copies.\<close>

definition stopWhenDone :: "state \<Rightarrow> state" where
  "stopWhenDone st =
     (if real (lettersSpawnedCount st) \<ge> totalLetters st
      then clearInterval (spawnIntervalId st) st else st)"

text \<open>
  The \<open>for\<close> loop of the first copy. An exception leaves the loop with the state
  reached so far.
\<close>

function spawnLetter_loop ::
  "env \<Rightarrow> vertex_sets option \<Rightarrow> nat \<Rightarrow> body option \<Rightarrow> bool \<Rightarrow> state
     \<Rightarrow> error option \<times> body option \<times> bool \<times> state" where
  "spawnLetter_loop e vertexSets i newLetterBody positionFound st =
     (if i < maxAttempts V1 \<and> \<not> positionFound then
        (let (pos, st1) = getUniquePosition V1 e st;
             (created, st2) = createLetter e (coords pos) vertexSets st1
         in case created of
              Inl err \<Rightarrow> (Some err, newLetterBody, positionFound, st2)
            | Inr b \<Rightarrow>
                (let (r, st3) = Math_random e st2;
                     randomAngle = r * 2 * pi;
                     b' = Body_rotate b randomAngle
                 in spawnLetter_loop e vertexSets (i + 1) (Some b')
                      (if \<not> doesOverlap e st3 b' then True else positionFound) st3))
      else (None, newLetterBody, positionFound, st))"
  by pat_completeness auto
termination
  by (relation "measure (\<lambda>(e, vs, i, b, f, st). maxAttempts V1 - i)") auto

definition spawnLetter_V1 :: "env \<Rightarrow> state \<Rightarrow> error option \<times> state" where
  "spawnLetter_V1 e st =
     (if real (lettersSpawnedCount st) \<ge> totalLetters st then (None, st)
      else
        (let (r, st1) = Math_random e st;
             randomIndex = \<lfloor>r * real (length (loadedVertexSets st1))\<rfloor>;
             vertexSets = index (loadedVertexSets st1) randomIndex;
             (err, newLetterBody, positionFound, st2) =
                spawnLetter_loop e vertexSets 0 None False st1
         in case err of
              Some x \<Rightarrow> (Some x, st2)
            | None \<Rightarrow>
                if positionFound then
                  (case newLetterBody of
                     None \<Rightarrow> (Some TypeError, st2)
                   | Some b \<Rightarrow>
                       (let st3 = Composite_add b st2;
                            st4 = st3\<lparr>lettersSpawnedCount := Suc (lettersSpawnedCount st3)\<rparr>
                        in (None, stopWhenDone st4)))
                else (None, stopWhenDone st2)))"

definition spawnLetter_V2 :: "env \<Rightarrow> state \<Rightarrow> error option \<times> state" where
  "spawnLetter_V2 e st =
     (if real (lettersSpawnedCount st) \<ge> totalLetters st then (None, st)
      else
        (let (r, st1) = Math_random e st;
             randomIndex = \<lfloor>r * real (length (loadedVertexSets st1))\<rfloor>;
             vertexSets = index (loadedVertexSets st1) randomIndex;
             (pos, st2) = getUniquePosition V2 e st1;
             (created, st3) = createLetter e (coords pos) vertexSets st2
         in case created of
              Inl err \<Rightarrow> (Some err, st3)
            | Inr b \<Rightarrow>
                (let st4 = Composite_add b st3;
                     st5 = st4\<lparr>lettersSpawnedCount := Suc (lettersSpawnedCount st4)\<rparr>
                 in (None, stopWhenDone st5))))"

fun spawnLetter :: "variant \<Rightarrow> env \<Rightarrow> state \<Rightarrow> error option \<times> state" where
  "spawnLetter V1 e st = spawnLetter_V1 e st"
| "spawnLetter V2 e st = spawnLetter_V2 e st"

text \<open>
  \<open>n\<close> invocations of \<open>spawnLetter\<close> in a row. The timer reports an exception of its
  callback and calls it again at the next tick, with the state that the failed call
  left.
\<close>

fun spawnLetter_times :: "variant \<Rightarrow> env \<Rightarrow> nat \<Rightarrow> state \<Rightarrow> state" where
  "spawnLetter_times v e 0 st = st"
| "spawnLetter_times v e (Suc n) st = spawnLetter_times v e n (snd (spawnLetter v e st))"

subsection \<open>Loading the outlines\<close>

text \<open>
  An SVG document is represented by the vertex lists of its \<open>path\<close> elements, in
  document order: what \<open>Vertices.scale(Svg.pathToVertices(path, 0), 1, 1)\<close> yields
  for each. \<open>fetched\<close> lists the URLs passed to \<open>fetch\<close>.
\<close>

definition svgPaths :: "string list" where
  "svgPaths = [''./letters/T.svg'', ''./letters/R.svg'', ''./letters/Y.svg'']"

text \<open>
  First copy: every URL is fetched at once; the rest of each callback runs when its
  response arrives, in the order \<open>arrival\<close>. A failed fetch rejects the promise of
  \<open>loadAllSvgs\<close>; the other callbacks still run.
\<close>

definition storeSvg_V1 :: "env \<Rightarrow> string \<Rightarrow> state \<Rightarrow> error option \<times> state" where
  "storeSvg_V1 e path st =
     (case assets e path of
        None \<Rightarrow> (Some (FetchError path), st)
      | Some vertexSets \<Rightarrow>
          (None,
           if length vertexSets > 0
           then st\<lparr>loadedVertexSets := loadedVertexSets st @ [vertexSets]\<rparr>
           else st\<lparr>warnings := warnings st @ [path]\<rparr>))"

fun storeSvgs_V1 :: "env \<Rightarrow> string list \<Rightarrow> state \<Rightarrow> error option \<times> state" where
  "storeSvgs_V1 e [] st = (None, st)"
| "storeSvgs_V1 e (path # paths) st =
     (let (err, st1) = storeSvg_V1 e path st;
          (errs, st2) = storeSvgs_V1 e paths st1
      in (case err of Some x \<Rightarrow> Some x | None \<Rightarrow> errs, st2))"

definition loadAllSvgs_V1 :: "env \<Rightarrow> string list \<Rightarrow> state \<Rightarrow> error option \<times> state" where
  "loadAllSvgs_V1 e arrival st =
     storeSvgs_V1 e arrival (st\<lparr>fetched := fetched st @ svgPaths\<rparr>)"

text \<open>
  Second copy: the call of \<open>loadAllSvgs\<close> starts the three fetches
  (\<open>loadAllSvgs_begin_V2\<close>); when all three have arrived, one callback pushes every
  document, with or without paths, in the order of \<open>svgPaths\<close>
  (\<open>loadAllSvgs_then_V2\<close>). If a fetch fails the callback does not run.
\<close>

fun loadSvgs :: "env \<Rightarrow> string list \<Rightarrow> error + vertex_sets list" where
  "loadSvgs e [] = Inr []"
| "loadSvgs e (url # urls) =
     (case assets e url of
        None \<Rightarrow> Inl (FetchError url)
      | Some svg \<Rightarrow>
          (case loadSvgs e urls of
             Inl x \<Rightarrow> Inl x
           | Inr svgs \<Rightarrow> Inr (svg # svgs)))"

definition loadAllSvgs_begin_V2 :: "state \<Rightarrow> state" where
  "loadAllSvgs_begin_V2 st = st\<lparr>fetched := fetched st @ svgPaths\<rparr>"

definition loadAllSvgs_then_V2 :: "env \<Rightarrow> state \<Rightarrow> error option \<times> state" where
  "loadAllSvgs_then_V2 e st =
     (case loadSvgs e svgPaths of
        Inl x \<Rightarrow> (Some x, st)
      | Inr svgs \<Rightarrow> (None, st\<lparr>loadedVertexSets := loadedVertexSets st @ svgs\<rparr>))"

definition loadAllSvgs_V2 :: "env \<Rightarrow> state \<Rightarrow> error option \<times> state" where
  "loadAllSvgs_V2 e st = loadAllSvgs_then_V2 e (loadAllSvgs_begin_V2 st)"

text \<open>
  What the script does with \<open>loadAllSvgs\<close> when it starts: the first copy has one
  \<open>loadAllSvgs().then(() => spawnLetters(200, 25))\<close>. The second copy has
  \<open>loadAllSvgs().then(() => spawnLetters(200, 50))\<close> and, further down,
  \<open>loadAllSvgs().then(() => spawnLetters(200))\<close>: both calls start their fetches while
  \<open>initAnimation\<close> runs, and the two callbacks run later, in the order in which the
  loads complete; \<open>firstLoadFirst\<close> says whether the load of the first call completes
  first.
\<close>

definition startup_V1 :: "env \<Rightarrow> string list \<Rightarrow> real \<Rightarrow> state \<Rightarrow> state" where
  "startup_V1 e arrival innerWidth st =
     (case loadAllSvgs_V1 e arrival st of
        (None, st1) \<Rightarrow> spawnLetters 200 (Some 25) innerWidth st1
      | (Some x, st1) \<Rightarrow> st1)"

definition loaded_V2 :: "env \<Rightarrow> real option \<Rightarrow> real \<Rightarrow> state \<Rightarrow> state" where
  "loaded_V2 e spawnInterval innerWidth st =
     (case loadAllSvgs_then_V2 e st of
        (None, st1) \<Rightarrow> spawnLetters 200 spawnInterval innerWidth st1
      | (Some x, st1) \<Rightarrow> st1)"

definition startup_V2 :: "env \<Rightarrow> bool \<Rightarrow> real \<Rightarrow> state \<Rightarrow> state" where
  "startup_V2 e firstLoadFirst innerWidth st =
     (let st1 = loadAllSvgs_begin_V2 (loadAllSvgs_begin_V2 st)
      in if firstLoadFirst
         then loaded_V2 e None innerWidth (loaded_V2 e (Some 50) innerWidth st1)
         else loaded_V2 e (Some 50) innerWidth (loaded_V2 e None innerWidth st1))"

text \<open>The state when \<open>initAnimation\<close> begins: nothing loaded, nothing spawned.\<close>

definition initialState :: state where
  "initialState =
     \<lparr>mathCalls = 0, commonCalls = 0, world = [], loadedVertexSets = [], fetched = [],
      warnings = [], lettersSpawned = False, activeTimers = {}, nextTimerId = 0,
      viewportWidth = 0, totalLetters = 0, lettersSpawnedCount = 0,
      occupiedGridCells = {}, spawnIntervalId = 0, spawnDelay = None,
      previousScrollY = 0\<rparr>"

subsection \<open>Mouse and scroll\<close>

text \<open>The callback of \<open>forEach\<close> in \<open>repelLetters\<close>, the same in both copies.\<close>

definition repelLetter :: "vec \<Rightarrow> body \<Rightarrow> body" where
  "repelLetter mousePosition b =
     (let distance = Vector_magnitude (Vector_sub (position b) mousePosition)
      in if distance < 75 then
           (let direction = Vector_normalise (Vector_sub (position b) mousePosition);
                forceMagnitude = 0.001 * (100 - distance);
                f = Vector_mult direction forceMagnitude
            in Body_applyForce b (position b) f)
         else b)"

definition repelLetters :: "vec \<Rightarrow> state \<Rightarrow> state" where
  "repelLetters mousePosition st = st\<lparr>world := map (repelLetter mousePosition) (world st)\<rparr>"




subsection \<open>Notions used in the statements\<close>

text \<open>
  The positions that the retry loop of \<open>getUniquePosition\<close> can return for a viewport
  of width \<open>vw\<close>, whatever the state and the random numbers, as long as these are in
  \<open>[0, 1)\<close> as \<open>Math.random\<close> promises.
\<close>

definition gridReturns :: "variant \<Rightarrow> real \<Rightarrow> vec set" where
  "gridReturns v vw =
     {p. \<exists>e st st'. (\<forall>n. 0 \<le> mathRandom e n \<and> mathRandom e n < 1) \<and>
           viewportWidth st = vw \<and> getUniquePosition v e st = (Grid p, st')}"

text \<open>
  Two states that differ at most in the number of random draws made and in the
  occupied grid cells.
\<close>

definition onlyDraws :: "state \<Rightarrow> state \<Rightarrow> bool" where
  "onlyDraws st st' \<longleftrightarrow>
     world st' = world st \<and> loadedVertexSets st' = loadedVertexSets st \<and>
     fetched st' = fetched st \<and> warnings st' = warnings st \<and>
     lettersSpawned st' = lettersSpawned st \<and> activeTimers st' = activeTimers st \<and>
     nextTimerId st' = nextTimerId st \<and> viewportWidth st' = viewportWidth st \<and>
     totalLetters st' = totalLetters st \<and>
     lettersSpawnedCount st' = lettersSpawnedCount st \<and>
     spawnIntervalId st' = spawnIntervalId st \<and> spawnDelay st' = spawnDelay st \<and>
     previousScrollY st' = previousScrollY st"

text \<open>What the callback of the first copy appends to the cache for one file.\<close>

definition cached :: "env \<Rightarrow> string \<Rightarrow> vertex_sets list" where
  "cached e path =
     (case assets e path of None \<Rightarrow> [] | Some d \<Rightarrow> if d = [] then [] else [d])"

subsection \<open>Sample inputs\<close>

text \<open>
  Environments: \<open>quietEnv\<close> draws 0 every time, lets nothing collide, has the
  library make one body for every outline and serves one triangle for every URL; \<open>stepEnv\<close> draws 0 twice and then 1/2; \<open>lateEnv\<close> draws 0
  fifty times and then 1/2; \<open>touchEnv\<close> reports a
  collision of two bodies with the same position; \<open>letterEnv\<close> serves a different
  triangle for each of the three letters and nothing else.
\<close>

definition quietEnv :: env where
  "quietEnv =
     \<lparr>mathRandom = (\<lambda>n. 0), commonRandom = (\<lambda>n. 0), collides = (\<lambda>a b. None),
      bodiesMade = (\<lambda>vs. 1),
      assets = (\<lambda>url. Some [[(0, 0), (10, 0), (0, 10)]])\<rparr>"

definition stepEnv :: env where
  "stepEnv = quietEnv\<lparr>mathRandom := (\<lambda>n. if n < 2 then 0 else 1 / 2)\<rparr>"

definition lateEnv :: env where
  "lateEnv = quietEnv\<lparr>mathRandom := (\<lambda>n. if n < 50 then 0 else 1 / 2)\<rparr>"

definition touchEnv :: env where
  "touchEnv =
     quietEnv\<lparr>collides :=
       (\<lambda>a b. if position a = position b then Some \<lparr>collided = True\<rparr> else None)\<rparr>"

definition letterEnv :: env where
  "letterEnv =
     quietEnv\<lparr>assets :=
       (\<lambda>url. if url = ''./letters/T.svg'' then Some [[(0, 0), (10, 0), (5, 10)]]
              else if url = ''./letters/R.svg'' then Some [[(0, 0), (10, 0), (10, 10)]]
              else if url = ''./letters/Y.svg'' then Some [[(0, 0), (10, 0), (0, 10)]]
              else None)\<rparr>"

text \<open>
  The triangle letter at rest at \<open>p\<close>, as \<open>Bodies.fromVertices\<close> makes it with the
  colour \<open>#CF6337\<close>, and the initial state with that triangle in the cache.
\<close>

definition letterAt :: "vec \<Rightarrow> body" where
  "letterAt p =
     \<lparr>position = p, angle = 0, force = (0, 0), torque = 0,
      vertices = [[(0, 0), (10, 0), (0, 10)]],
      render = \<lparr>fillStyle = Some ''#CF6337'', strokeStyle = Some ''#CF6337'', lineWidth = 1\<rparr>\<rparr>"

definition loadedState :: state where
  "loadedState = initialState\<lparr>loadedVertexSets := [[[(0, 0), (10, 0), (0, 10)]]]\<rparr>"

section \<open>Properties of the spawn positions\<close>

declare getUniquePosition_loop.simps [simp del]

lemma getUniquePosition_loop_unfold:
  "getUniquePosition_loop v e attempts st =
     (let r1 = mathRandom e (mathCalls st);
          r2 = mathRandom e (Suc (mathCalls st));
          st2 = st\<lparr>mathCalls := Suc (Suc (mathCalls st))\<rparr>
      in if attempts < maxAttempts v then
           (let p = gridPosition v (viewportWidth st) r1 r2
            in if gridKey p \<notin> occupiedGridCells st
               then (Grid p, st2\<lparr>occupiedGridCells := insert (gridKey p) (occupiedGridCells st)\<rparr>)
               else getUniquePosition_loop v e (attempts + 1) st2)
         else (Default (defaultPosition v (viewportWidth st) r1 r2), st2))"
  by (subst getUniquePosition_loop.simps) (simp add: Math_random_def Let_def)

lemma attemptPosition_shift:
  "attemptPosition v e (st\<lparr>mathCalls := Suc (Suc (mathCalls st))\<rparr>) k = attemptPosition v e st (Suc k)"
  by (simp add: attemptPosition_def)

lemma loop_Grid:
  assumes "attempts + k < maxAttempts v"
    and "\<forall>j<k. gridKey (attemptPosition v e st j) \<in> occupiedGridCells st"
    and "gridKey (attemptPosition v e st k) \<notin> occupiedGridCells st"
  shows "getUniquePosition_loop v e attempts st =
     (Grid (attemptPosition v e st k),
      st\<lparr>mathCalls := mathCalls st + 2 * k + 2,
         occupiedGridCells := insert (gridKey (attemptPosition v e st k)) (occupiedGridCells st)\<rparr>)"
  using assms
proof (induction k arbitrary: attempts st)
  case 0
  then show ?case
    by (simp add: getUniquePosition_loop_unfold[of v e attempts] Let_def attemptPosition_def)
next
  case (Suc k)
  let ?st2 = "st\<lparr>mathCalls := Suc (Suc (mathCalls st))\<rparr>"
  from Suc.prems(2) have occ0: "gridKey (attemptPosition v e st 0) \<in> occupiedGridCells st"
    by blast
  have "getUniquePosition_loop v e (attempts + 1) ?st2 =
     (Grid (attemptPosition v e ?st2 k),
      ?st2\<lparr>mathCalls := mathCalls ?st2 + 2 * k + 2,
         occupiedGridCells := insert (gridKey (attemptPosition v e ?st2 k)) (occupiedGridCells ?st2)\<rparr>)"
  proof (rule Suc.IH)
    show "attempts + 1 + k < maxAttempts v" using Suc.prems(1) by simp
    show "\<forall>j<k. gridKey (attemptPosition v e ?st2 j) \<in> occupiedGridCells ?st2"
      using Suc.prems(2) by (simp add: attemptPosition_shift)
    show "gridKey (attemptPosition v e ?st2 k) \<notin> occupiedGridCells ?st2"
      using Suc.prems(3) by (simp add: attemptPosition_shift)
  qed
  moreover have "getUniquePosition_loop v e attempts st = getUniquePosition_loop v e (attempts + 1) ?st2"
    using Suc.prems(1) occ0
    by (simp add: getUniquePosition_loop_unfold[of v e attempts] Let_def attemptPosition_def)
  ultimately show ?case
    by (simp add: attemptPosition_shift)
qed

lemma loop_Default:
  assumes "\<forall>j. attempts + j < maxAttempts v \<longrightarrow>
               gridKey (attemptPosition v e st j) \<in> occupiedGridCells st"
    and "n = maxAttempts v - attempts"
  shows "getUniquePosition_loop v e attempts st =
     (Default (defaultPosition v (viewportWidth st)
                 (mathRandom e (mathCalls st + 2 * n)) (mathRandom e (mathCalls st + 2 * n + 1))),
      st\<lparr>mathCalls := mathCalls st + 2 * n + 2\<rparr>)"
  using assms
proof (induction n arbitrary: attempts st)
  case 0
  then show ?case
    by (simp add: getUniquePosition_loop_unfold[of v e attempts] Let_def)
next
  case (Suc n)
  let ?st2 = "st\<lparr>mathCalls := Suc (Suc (mathCalls st))\<rparr>"
  from Suc.prems have lt: "attempts < maxAttempts v" by simp
  with Suc.prems(1) have occ0: "gridKey (attemptPosition v e st 0) \<in> occupiedGridCells st"
    by (metis add.right_neutral)
  have "getUniquePosition_loop v e (attempts + 1) ?st2 =
     (Default (defaultPosition v (viewportWidth ?st2)
                 (mathRandom e (mathCalls ?st2 + 2 * n)) (mathRandom e (mathCalls ?st2 + 2 * n + 1))),
      ?st2\<lparr>mathCalls := mathCalls ?st2 + 2 * n + 2\<rparr>)"
  proof (rule Suc.IH)
    show "\<forall>j. attempts + 1 + j < maxAttempts v \<longrightarrow>
            gridKey (attemptPosition v e ?st2 j) \<in> occupiedGridCells ?st2"
      using Suc.prems(1) by (simp add: attemptPosition_shift)
    show "n = maxAttempts v - (attempts + 1)" using Suc.prems(2) by simp
  qed
  moreover have "getUniquePosition_loop v e attempts st = getUniquePosition_loop v e (attempts + 1) ?st2"
    using lt occ0
    by (simp add: getUniquePosition_loop_unfold[of v e attempts] Let_def attemptPosition_def)
  ultimately show ?case
    by simp
qed

lemma getUniquePosition_cases:
  obtains (Grid) k where "k < maxAttempts v"
      and "\<forall>j<k. gridKey (attemptPosition v e st j) \<in> occupiedGridCells st"
      and "gridKey (attemptPosition v e st k) \<notin> occupiedGridCells st"
      and "getUniquePosition v e st =
             (Grid (attemptPosition v e st k),
              st\<lparr>mathCalls := mathCalls st + 2 * k + 2,
                 occupiedGridCells := insert (gridKey (attemptPosition v e st k)) (occupiedGridCells st)\<rparr>)"
  | (Default) "\<forall>j<maxAttempts v. gridKey (attemptPosition v e st j) \<in> occupiedGridCells st"
      and "getUniquePosition v e st =
         (Default (defaultPosition v (viewportWidth st)
                 (mathRandom e (mathCalls st + 2 * maxAttempts v))
                 (mathRandom e (mathCalls st + 2 * maxAttempts v + 1))),
          st\<lparr>mathCalls := mathCalls st + 2 * maxAttempts v + 2\<rparr>)"
proof (cases "\<exists>k<maxAttempts v. gridKey (attemptPosition v e st k) \<notin> occupiedGridCells st")
  case True
  define k where "k = (LEAST k. k < maxAttempts v \<and> gridKey (attemptPosition v e st k) \<notin> occupiedGridCells st)"
  from True have k: "k < maxAttempts v \<and> gridKey (attemptPosition v e st k) \<notin> occupiedGridCells st"
    unfolding k_def by (metis (mono_tags, lifting) LeastI)
  have least: "\<forall>j<k. gridKey (attemptPosition v e st j) \<in> occupiedGridCells st"
  proof (intro allI impI)
    fix j assume "j < k"
    then have "\<not> (j < maxAttempts v \<and> gridKey (attemptPosition v e st j) \<notin> occupiedGridCells st)"
      unfolding k_def by (rule not_less_Least)
    with \<open>j < k\<close> k show "gridKey (attemptPosition v e st j) \<in> occupiedGridCells st" by simp
  qed
  from k least show ?thesis
    by (intro Grid[of k]) (simp_all add: getUniquePosition_def loop_Grid[of 0 k, simplified])
next
  case False
  then have all: "\<forall>j<maxAttempts v. gridKey (attemptPosition v e st j) \<in> occupiedGridCells st"
    by blast
  then show ?thesis
    by (intro Default) (simp_all add: getUniquePosition_def loop_Default[of 0 v e st "maxAttempts v", simplified])
qed

lemma floor_height: "0 \<le> r \<Longrightarrow> r < 1 \<Longrightarrow> \<lfloor>(r * maxHeightAboveViewport) / gridSize\<rfloor> = 0"
  by (simp add: maxHeightAboveViewport_def gridSize_def spacing_def floor_eq_iff)

lemma gridPosition_y:
  "0 \<le> r2 \<Longrightarrow> r2 < 1 \<Longrightarrow> snd (gridPosition v vw r1 r2) = baseY v"
  by (simp add: gridPosition_def floor_height)

lemma gridKey_y:
  "0 \<le> r2 \<Longrightarrow> r2 < 1 \<Longrightarrow>
     snd (gridKey (gridPosition v vw r1 r2)) = (case v of V1 \<Rightarrow> - 2 | V2 \<Rightarrow> - 1)"
  by (cases v) (simp_all add: gridKey_def gridPosition_y gridSize_def spacing_def floor_eq_iff)

lemma column_bounds:
  assumes "0 \<le> r" "r < 1" "0 \<le> vw"
  shows "0 \<le> \<lfloor>(r * spawnAreaWidth vw) / gridSize\<rfloor>"
    and "nat \<lfloor>(r * spawnAreaWidth vw) / gridSize\<rfloor> < max 1 (nat \<lceil>spawnAreaWidth vw / gridSize\<rceil>)"
proof -
  have w: "0 \<le> spawnAreaWidth vw" using assms by (simp add: spawnAreaWidth_def)
  have g: "0 < gridSize" by (simp add: gridSize_def spacing_def)
  show nn: "0 \<le> \<lfloor>(r * spawnAreaWidth vw) / gridSize\<rfloor>"
    using assms w g by simp
  show "nat \<lfloor>(r * spawnAreaWidth vw) / gridSize\<rfloor> < max 1 (nat \<lceil>spawnAreaWidth vw / gridSize\<rceil>)"
  proof (cases "spawnAreaWidth vw = 0")
    case True
    then show ?thesis by simp
  next
    case False
    with w have "0 < spawnAreaWidth vw" by simp
    with assms have "r * spawnAreaWidth vw < spawnAreaWidth vw" by simp
    with g have "(r * spawnAreaWidth vw) / gridSize < spawnAreaWidth vw / gridSize"
      by (simp add: divide_strict_right_mono)
    also have "\<dots> \<le> of_int \<lceil>spawnAreaWidth vw / gridSize\<rceil>" by simp
    finally have "\<lfloor>(r * spawnAreaWidth vw) / gridSize\<rfloor> < \<lceil>spawnAreaWidth vw / gridSize\<rceil>"
      by (simp add: floor_less_iff)
    with nn show ?thesis by simp
  qed
qed

lemma gridKey_x:
  "fst (gridKey (startX v vw + real k * gridSize, y)) = \<lfloor>startX v vw / gridSize\<rfloor> + int k"
proof -
  have "(startX v vw + real k * gridSize) / gridSize = startX v vw / gridSize + of_int (int k)"
    by (simp add: gridSize_def spacing_def add_divide_distrib)
  then show ?thesis
    by (simp only: gridKey_def fst_conv floor_add_int)
qed

lemma gridPosition_column:
  assumes "0 \<le> r1" "r1 < 1" "0 \<le> r2" "r2 < 1" "0 \<le> vw"
  shows "\<exists>k < max 1 (nat \<lceil>spawnAreaWidth vw / gridSize\<rceil>).
           gridPosition v vw r1 r2 = (startX v vw + real k * gridSize, baseY v) \<and>
           gridKey (gridPosition v vw r1 r2) =
             (\<lfloor>startX v vw / gridSize\<rfloor> + int k, case v of V1 \<Rightarrow> - 2 | V2 \<Rightarrow> - 1)"
proof -
  let ?k = "nat \<lfloor>(r1 * spawnAreaWidth vw) / gridSize\<rfloor>"
  have k: "of_int \<lfloor>(r1 * spawnAreaWidth vw) / gridSize\<rfloor> = real ?k"
    using column_bounds(1)[OF assms(1,2,5)] by simp
  have p: "gridPosition v vw r1 r2 = (startX v vw + real ?k * gridSize, baseY v)"
    using assms k by (simp add: gridPosition_def floor_height)
  have "fst (gridKey (gridPosition v vw r1 r2)) = \<lfloor>startX v vw / gridSize\<rfloor> + int ?k"
    using gridKey_x[of v vw ?k "baseY v"] p by simp
  moreover have "snd (gridKey (gridPosition v vw r1 r2)) = (case v of V1 \<Rightarrow> - 2 | V2 \<Rightarrow> - 1)"
    using assms(3,4) by (rule gridKey_y)
  ultimately have "gridKey (gridPosition v vw r1 r2) =
             (\<lfloor>startX v vw / gridSize\<rfloor> + int ?k, case v of V1 \<Rightarrow> - 2 | V2 \<Rightarrow> - 1)"
    by (simp add: prod_eq_iff)
  with p column_bounds(2)[OF assms(1,2,5)] show ?thesis by blast
qed

lemma getUniquePosition_Grid_D:
  assumes "getUniquePosition v e st = (Grid p, st')"
  obtains k where "k < maxAttempts v"
      and "\<forall>j<k. gridKey (attemptPosition v e st j) \<in> occupiedGridCells st"
      and "gridKey p \<notin> occupiedGridCells st"
      and "p = attemptPosition v e st k"
      and "st' = st\<lparr>mathCalls := mathCalls st + 2 * k + 2,
                 occupiedGridCells := insert (gridKey p) (occupiedGridCells st)\<rparr>"
  using assms by (cases v e st rule: getUniquePosition_cases) auto

lemma getUniquePosition_Default_D:
  assumes "getUniquePosition v e st = (Default p, st')"
  shows "\<forall>j<maxAttempts v. gridKey (attemptPosition v e st j) \<in> occupiedGridCells st"
    and "p = defaultPosition v (viewportWidth st)
                 (mathRandom e (mathCalls st + 2 * maxAttempts v))
                 (mathRandom e (mathCalls st + 2 * maxAttempts v + 1))"
    and "st' = st\<lparr>mathCalls := mathCalls st + 2 * maxAttempts v + 2\<rparr>"
  using assms by (cases v e st rule: getUniquePosition_cases; simp)+

lemma getUniquePosition_result:
  "(\<exists>k<maxAttempts v.
       (\<forall>j<k. gridKey (attemptPosition v e st j) \<in> occupiedGridCells st) \<and>
       gridKey (attemptPosition v e st k) \<notin> occupiedGridCells st \<and>
       getUniquePosition v e st =
         (Grid (attemptPosition v e st k),
          st\<lparr>mathCalls := mathCalls st + 2 * (k + 1),
             occupiedGridCells :=
               insert (gridKey (attemptPosition v e st k)) (occupiedGridCells st)\<rparr>))
   \<or> ((\<forall>j<maxAttempts v. gridKey (attemptPosition v e st j) \<in> occupiedGridCells st) \<and>
       getUniquePosition v e st =
         (Default (defaultPosition v (viewportWidth st)
                     (mathRandom e (mathCalls st + 2 * maxAttempts v))
                     (mathRandom e (mathCalls st + 2 * maxAttempts v + 1))),
          st\<lparr>mathCalls := mathCalls st + 2 * maxAttempts v + 2\<rparr>))"
proof (cases v e st rule: getUniquePosition_cases)
  case (Grid k)
  then have "\<exists>k<maxAttempts v.
       (\<forall>j<k. gridKey (attemptPosition v e st j) \<in> occupiedGridCells st) \<and>
       gridKey (attemptPosition v e st k) \<notin> occupiedGridCells st \<and>
       getUniquePosition v e st =
         (Grid (attemptPosition v e st k),
          st\<lparr>mathCalls := mathCalls st + 2 * (k + 1),
             occupiedGridCells :=
               insert (gridKey (attemptPosition v e st k)) (occupiedGridCells st)\<rparr>)"
    by (intro exI[of _ k]) simp
  then show ?thesis ..
next
  case Default
  then show ?thesis by blast
qed

lemma no_smaller_nat: "(\<forall>j::nat. \<not> j < k) \<longleftrightarrow> k = 0"
  by auto

text \<open>
  Claim C9. \<open>getUniquePosition\<close> always returns a position. Its loop is defined with
  a termination proof (the measure is \<open>maxAttempts - attempts\<close>), and the result is
  one of two, written out here with the numbers of the script: \<open>m\<close> is \<open>maxAttempts\<close>
  (25 and 100), \<open>sx\<close> is \<open>startX\<close>, \<open>y0\<close> the constant that starts \<open>y\<close>, \<open>candidate k\<close>
  the grid position that iteration \<open>k\<close> makes of its two random numbers and \<open>key\<close> the
  grid key. Either some attempt \<open>k < m\<close> is the first whose cell is free: then the loop
  body ran \<open>k + 1\<close> times, with two calls of \<open>Math.random\<close> each, the position of that
  attempt is returned and its key is added. Or the cell of every one of the \<open>m\<close>
  attempts is occupied: then the loop body ran \<open>m\<close> times and the position
  \<open>(startX + r * spawnAreaWidth, y0 + r' * 50)\<close> is returned, where \<open>r\<close> and \<open>r'\<close> are the
  next two random numbers; it is neither rounded to the grid nor compared with the
  occupied cells, and the set of occupied cells stays as it was.
\<close>

theorem getUniquePosition_returns:
  "let vw = viewportWidth st;
       i = mathCalls st;
       m = (case v of V1 \<Rightarrow> 25 | V2 \<Rightarrow> 100);
       sx = (case v of V1 \<Rightarrow> vw - vw * 0.6 - 40 | V2 \<Rightarrow> vw - vw * 0.6);
       y0 = (case v of V1 \<Rightarrow> - 100 | V2 \<Rightarrow> - 20);
       candidate = (\<lambda>k. (sx + of_int \<lfloor>mathRandom e (i + 2 * k) * (vw * 0.6) / 75\<rfloor> * 75,
                          y0 + of_int \<lfloor>mathRandom e (i + 2 * k + 1) * 50 / 75\<rfloor> * 75));
       key = (\<lambda>p :: vec. (\<lfloor>fst p / 75\<rfloor>, \<lfloor>snd p / 75\<rfloor>))
   in (\<exists>k<m.
         (\<forall>j<k. key (candidate j) \<in> occupiedGridCells st) \<and>
         key (candidate k) \<notin> occupiedGridCells st \<and>
         getUniquePosition v e st =
           (Grid (candidate k),
            st\<lparr>mathCalls := i + 2 * (k + 1),
               occupiedGridCells := insert (key (candidate k)) (occupiedGridCells st)\<rparr>))
      \<or> ((\<forall>j<m. key (candidate j) \<in> occupiedGridCells st) \<and>
          getUniquePosition v e st =
            (Default (sx + mathRandom e (i + 2 * m) * (vw * 0.6),
                      y0 + mathRandom e (i + 2 * m + 1) * 50),
             st\<lparr>mathCalls := i + 2 * m + 2\<rparr>))"
  using getUniquePosition_result [of v e st]
  by (cases v)
     (simp_all add: Let_def attemptPosition_def gridPosition_def gridKey_def
       defaultPosition_def gridSize_def spacing_def spawnAreaWidth_def
       maxHeightAboveViewport_def)

text \<open>
  A viewport 1000 wide in the first copy, with the cell \<open>(4, -2)\<close> occupied. When the
  random numbers are 0, 0 and then 1/2, the first attempt hits the occupied cell and
  the second returns \<open>(660, -100)\<close>, in cell \<open>(8, -2)\<close>, after four draws. When the first
  fifty random numbers are 0 and the rest 1/2, all 25 attempts hit the occupied cell
  and the default position \<open>(360 + 600 / 2, -100 + 50 / 2)\<close> is returned after 52
  draws, with the occupied cells unchanged.
\<close>

theorem getUniquePosition_returns_witness:
  "getUniquePosition V1 stepEnv
     ((spawnLetters 200 (Some 25) 1000 initialState)\<lparr>occupiedGridCells := {(4, - 2)}\<rparr>) =
     (Grid (660, - 100),
      (spawnLetters 200 (Some 25) 1000 initialState)
        \<lparr>mathCalls := 4, occupiedGridCells := {(8, - 2), (4, - 2)}\<rparr>) \<and>
   getUniquePosition V1 lateEnv
     ((spawnLetters 200 (Some 25) 1000 initialState)\<lparr>occupiedGridCells := {(4, - 2)}\<rparr>) =
     (Default (660, - 75),
      (spawnLetters 200 (Some 25) 1000 initialState)
        \<lparr>mathCalls := 52, occupiedGridCells := {(4, - 2)}\<rparr>)"
proof -
  let ?st = "(spawnLetters 200 (Some 25) 1000 initialState)\<lparr>occupiedGridCells := {(4, - 2)}\<rparr>"
  have st: "?st = \<lparr>mathCalls = 0, commonCalls = 0, world = [], loadedVertexSets = [],
      fetched = [], warnings = [], lettersSpawned = True, activeTimers = {0},
      nextTimerId = Suc 0, viewportWidth = 1000, totalLetters = 200,
      lettersSpawnedCount = 0, occupiedGridCells = {(4, - 2)}, spawnIntervalId = 0,
      spawnDelay = Some 25, previousScrollY = 0\<rparr>"
    by (simp add: spawnLetters_def initialState_def setInterval_def)
  have "0 + 1 < maxAttempts V1" by simp
  moreover have "\<forall>j<1. gridKey (attemptPosition V1 stepEnv ?st j) \<in> occupiedGridCells ?st"
    unfolding st
    by (simp add: stepEnv_def quietEnv_def attemptPosition_def gridPosition_def gridKey_def
        gridSize_def spacing_def spawnAreaWidth_def maxHeightAboveViewport_def)
  moreover have "gridKey (attemptPosition V1 stepEnv ?st 1) \<notin> occupiedGridCells ?st"
    unfolding st
    by (simp add: stepEnv_def quietEnv_def attemptPosition_def gridPosition_def gridKey_def
        gridSize_def spacing_def spawnAreaWidth_def maxHeightAboveViewport_def)
  ultimately have "getUniquePosition_loop V1 stepEnv 0 ?st =
     (Grid (attemptPosition V1 stepEnv ?st 1),
      ?st\<lparr>mathCalls := mathCalls ?st + 2 * 1 + 2,
          occupiedGridCells :=
            insert (gridKey (attemptPosition V1 stepEnv ?st 1)) (occupiedGridCells ?st)\<rparr>)"
    by (rule loop_Grid)
  then have retry: "getUniquePosition V1 stepEnv ?st =
     (Grid (660, - 100), ?st\<lparr>mathCalls := 4, occupiedGridCells := {(8, - 2), (4, - 2)}\<rparr>)"
    unfolding st
    by (simp add: getUniquePosition_def stepEnv_def quietEnv_def attemptPosition_def
        gridPosition_def gridKey_def gridSize_def spacing_def spawnAreaWidth_def
        maxHeightAboveViewport_def)
  have a: "getUniquePosition V1 stepEnv ?st =
     (Grid (660, - 100), ?st\<lparr>mathCalls := 4, occupiedGridCells := {(8, - 2), (4, - 2)}\<rparr>)"
    using getUniquePosition_returns [of ?st V1 stepEnv] retry
    by blast
  have b: "getUniquePosition V1 lateEnv ?st =
     (Default (660, - 75), ?st\<lparr>mathCalls := 52\<rparr>)"
    using getUniquePosition_returns [of ?st V1 lateEnv]
    unfolding st
    by (simp add: Let_def lateEnv_def quietEnv_def cong: conj_cong)
  from a b show ?thesis by simp
qed

lemma gridReturns_subset:
  assumes "0 \<le> vw"
  shows "gridReturns v vw \<subseteq>
           (\<lambda>k. (startX v vw + real k * gridSize, baseY v)) `
             {..<max 1 (nat \<lceil>spawnAreaWidth vw / gridSize\<rceil>)}"
proof
  fix p assume "p \<in> gridReturns v vw"
  then obtain e st st' where r: "\<forall>n. 0 \<le> mathRandom e n \<and> mathRandom e n < 1"
    and w: "viewportWidth st = vw" and g: "getUniquePosition v e st = (Grid p, st')"
    by (auto simp: gridReturns_def)
  from g obtain k where "p = attemptPosition v e st k"
    by (rule getUniquePosition_Grid_D)
  then have "p = gridPosition v vw (mathRandom e (mathCalls st + 2 * k))
                   (mathRandom e (mathCalls st + 2 * k + 1))"
    by (simp add: attemptPosition_def w)
  with gridPosition_column[of "mathRandom e (mathCalls st + 2 * k)"
      "mathRandom e (mathCalls st + 2 * k + 1)" vw v] r assms
  show "p \<in> (\<lambda>k. (startX v vw + real k * gridSize, baseY v)) `
             {..<max 1 (nat \<lceil>spawnAreaWidth vw / gridSize\<rceil>)}"
    by auto
qed

text \<open>
  Claim C10. Let every random number be in \<open>[0, 1)\<close> and the viewport width be
  \<open>vw \<ge> 0\<close>. Every position \<open>p\<close> that the retry loop of \<open>getUniquePosition\<close> can
  return has the \<open>y\<close> coordinate \<open>baseY\<close> (\<open>-100\<close> in the first copy, \<open>-20\<close> in the second)
  and a key whose \<open>y\<close> cell is the same for all (\<open>-2\<close> and \<open>-1\<close>); its \<open>x\<close> coordinate is
  \<open>startX + k * gridSize\<close> for a column \<open>k\<close>, and the key's \<open>x\<close> cell is that of \<open>startX\<close>
  plus \<open>k\<close>. The columns number \<open>\<lceil>spawnAreaWidth / gridSize\<rceil>\<close> (one when the area is
  empty), and so do the positions at most.
\<close>

theorem grid_positions_share_y:
  assumes "0 \<le> vw"
  shows "(\<forall>p \<in> gridReturns v vw.
            snd p = baseY v \<and>
            snd (gridKey p) = (case v of V1 \<Rightarrow> - 2 | V2 \<Rightarrow> - 1) \<and>
            (\<exists>k < max 1 (nat \<lceil>spawnAreaWidth vw / gridSize\<rceil>).
                fst p = startX v vw + real k * gridSize \<and>
                fst (gridKey p) = \<lfloor>startX v vw / gridSize\<rfloor> + int k)) \<and>
         finite (gridReturns v vw) \<and>
         card (gridReturns v vw) \<le> max 1 (nat \<lceil>spawnAreaWidth vw / gridSize\<rceil>)"
proof (intro conjI ballI)
  let ?N = "max 1 (nat \<lceil>spawnAreaWidth vw / gridSize\<rceil>)"
  let ?f = "\<lambda>k. (startX v vw + real k * gridSize, baseY v)"
  have sub: "gridReturns v vw \<subseteq> ?f ` {..<?N}"
    using assms by (rule gridReturns_subset)
  show fin: "finite (gridReturns v vw)"
    using sub by (rule finite_subset) simp
  have "card (gridReturns v vw) \<le> card (?f ` {..<?N})"
    using sub by (intro card_mono) simp_all
  also have "\<dots> \<le> card {..<?N}" by (rule card_image_le) simp
  finally show "card (gridReturns v vw) \<le> ?N" by simp
  fix p assume "p \<in> gridReturns v vw"
  then obtain e st st' where r: "\<forall>n. 0 \<le> mathRandom e n \<and> mathRandom e n < 1"
    and w: "viewportWidth st = vw" and g: "getUniquePosition v e st = (Grid p, st')"
    by (auto simp: gridReturns_def)
  from g obtain j where "p = attemptPosition v e st j"
    by (rule getUniquePosition_Grid_D)
  then have p: "p = gridPosition v vw (mathRandom e (mathCalls st + 2 * j))
                   (mathRandom e (mathCalls st + 2 * j + 1))"
    by (simp add: attemptPosition_def w)
  from gridPosition_column[of "mathRandom e (mathCalls st + 2 * j)"
      "mathRandom e (mathCalls st + 2 * j + 1)" vw v] r assms
  obtain k where k: "k < ?N" "p = (startX v vw + real k * gridSize, baseY v)"
     "gridKey p = (\<lfloor>startX v vw / gridSize\<rfloor> + int k, case v of V1 \<Rightarrow> - 2 | V2 \<Rightarrow> - 1)"
    unfolding p by blast
  from k(2) show "snd p = baseY v" by simp
  from k(3) show "snd (gridKey p) = (case v of V1 \<Rightarrow> - 2 | V2 \<Rightarrow> - 1)" by simp
  from k show "\<exists>k < ?N. fst p = startX v vw + real k * gridSize \<and>
                fst (gridKey p) = \<lfloor>startX v vw / gridSize\<rfloor> + int k"
    by (intro exI[of _ k]) simp
qed

lemma quiet_first_position:
  "getUniquePosition V1 quietEnv (spawnLetters 200 (Some 25) 1000 initialState) =
     (Grid (360, - 100),
      (spawnLetters 200 (Some 25) 1000 initialState)
        \<lparr>mathCalls := 2, occupiedGridCells := {(4, - 2)}\<rparr>)"
  by (simp add: getUniquePosition_def getUniquePosition_loop_unfold[of V1 _ 0]
      spawnLetters_def initialState_def setInterval_def quietEnv_def
      gridPosition_def gridKey_def gridSize_def spacing_def
      spawnAreaWidth_def maxHeightAboveViewport_def)

text \<open>
  For a viewport 1000 wide the first copy can return \<open>(360, -100)\<close>, and there are at
  most 8 positions.
\<close>

theorem grid_positions_share_y_witness:
  "(0::real) \<le> 1000 \<and> (360, - 100) \<in> gridReturns V1 1000 \<and>
   snd (360 :: real, - 100 :: real) = baseY V1 \<and>
   finite (gridReturns V1 1000) \<and> card (gridReturns V1 1000) \<le> 8"
proof -
  have h: "(0::real) \<le> 1000" by simp
  have "viewportWidth (spawnLetters 200 (Some 25) 1000 initialState) = 1000"
    by (simp add: spawnLetters_def initialState_def setInterval_def)
  moreover have "\<forall>n. 0 \<le> mathRandom quietEnv n \<and> mathRandom quietEnv n < 1"
    by (simp add: quietEnv_def)
  ultimately have m: "(360, - 100) \<in> gridReturns V1 1000"
    unfolding gridReturns_def using quiet_first_position by blast
  have "nat \<lceil>spawnAreaWidth 1000 / gridSize\<rceil> = 8"
    by (simp add: spawnAreaWidth_def gridSize_def spacing_def)
  with grid_positions_share_y [OF h, of V1] h m show ?thesis
    by simp
qed

lemma getUniquePosition_Grid_occupied:
  assumes "getUniquePosition v e st = (Grid p, st')"
  shows "gridKey p \<notin> occupiedGridCells st"
    and "occupiedGridCells st' = insert (gridKey p) (occupiedGridCells st)"
  using assms by (auto elim!: getUniquePosition_Grid_D)

lemma getUniquePosition_Default_occupied:
  assumes "getUniquePosition v e st = (Default p, st')"
  shows "occupiedGridCells st' = occupiedGridCells st"
  using getUniquePosition_Default_D(3)[OF assms] by simp

lemma getUniquePositions_keys:
  "getUniquePositions v e skips st = (rs, st') \<Longrightarrow>
     distinct (map gridKey (gridResults rs)) \<and>
     set (map gridKey (gridResults rs)) \<inter> occupiedGridCells st = {} \<and>
     occupiedGridCells st' = occupiedGridCells st \<union> set (map gridKey (gridResults rs))"
proof (induction skips arbitrary: st rs st')
  case Nil
  then show ?case by simp
next
  case (Cons skip skips)
  let ?st0 = "st\<lparr>mathCalls := mathCalls st + skip\<rparr>"
  obtain r st1 where r: "getUniquePosition v e ?st0 = (r, st1)"
    by (cases "getUniquePosition v e ?st0")
  obtain rs1 st2 where rs1: "getUniquePositions v e skips st1 = (rs1, st2)"
    by (cases "getUniquePositions v e skips st1")
  from Cons.prems r rs1 have rs: "rs = r # rs1" and st': "st' = st2"
    by simp_all
  note IH = Cons.IH[OF rs1]
  show ?case
  proof (cases r)
    case (Grid p)
    with r have g: "getUniquePosition v e ?st0 = (Grid p, st1)" by simp
    have "gridKey p \<notin> occupiedGridCells ?st0"
      and "occupiedGridCells st1 = insert (gridKey p) (occupiedGridCells ?st0)"
      using getUniquePosition_Grid_occupied[OF g] by blast+
    with IH show ?thesis
      unfolding rs st' Grid by auto
  next
    case (Default p)
    with r have d: "getUniquePosition v e ?st0 = (Default p, st1)" by simp
    have "occupiedGridCells st1 = occupiedGridCells ?st0"
      using getUniquePosition_Default_occupied[OF d] .
    with IH show ?thesis
      unfolding rs st' Default by auto
  qed
qed

text \<open>
  Claim C4. A call of \<open>getUniquePosition\<close> that returns from inside the retry loop
  returns a position whose grid key was not in \<open>occupiedGridCells\<close> before the call,
  and the call adds exactly that key; a call that returns the default position leaves
  the set as it was. So in every sequence of calls the positions returned from inside
  the loop have pairwise distinct keys, none of them occupied before the sequence, and
  the set after the sequence is the set before it with these keys added. Default
  positions are not in this list: only they can repeat a cell.
\<close>

theorem grid_results_claim_distinct_cells:
  "(\<forall>p s. getUniquePosition v e st = (Grid p, s) \<longrightarrow>
       gridKey p \<notin> occupiedGridCells st \<and>
       occupiedGridCells s = insert (gridKey p) (occupiedGridCells st)) \<and>
   (\<forall>p s. getUniquePosition v e st = (Default p, s) \<longrightarrow>
       occupiedGridCells s = occupiedGridCells st) \<and>
   (\<forall>rs st'. getUniquePositions v e skips st = (rs, st') \<longrightarrow>
       distinct (map gridKey (gridResults rs)) \<and>
       set (map gridKey (gridResults rs)) \<inter> occupiedGridCells st = {} \<and>
       occupiedGridCells st' = occupiedGridCells st \<union> set (map gridKey (gridResults rs)))"
  using getUniquePosition_Grid_occupied[of v e st] getUniquePosition_Default_occupied[of v e st]
    getUniquePositions_keys[of v e skips st]
  by blast

lemma step_positions:
  "getUniquePositions V1 stepEnv [0, 0] (spawnLetters 200 (Some 25) 1000 initialState) =
     ([Grid (360, - 100), Grid (660, - 100)],
      (spawnLetters 200 (Some 25) 1000 initialState)
        \<lparr>mathCalls := 4, occupiedGridCells := {(8, - 2), (4, - 2)}\<rparr>)"
  by (simp add: getUniquePosition_def getUniquePosition_loop_unfold[of V1 _ 0]
      spawnLetters_def initialState_def setInterval_def quietEnv_def stepEnv_def
      gridPosition_def gridKey_def gridSize_def spacing_def
      spawnAreaWidth_def maxHeightAboveViewport_def)

text \<open>
  Two calls in a row in the first copy, with the random numbers 0, 0 and then 1/2:
  the positions \<open>(360, -100)\<close> and \<open>(660, -100)\<close>, in the cells \<open>(4, -2)\<close> and \<open>(8, -2)\<close>.
\<close>

theorem grid_results_claim_distinct_cells_witness:
  "getUniquePositions V1 stepEnv [0, 0] (spawnLetters 200 (Some 25) 1000 initialState) =
     ([Grid (360, - 100), Grid (660, - 100)],
      (spawnLetters 200 (Some 25) 1000 initialState)
        \<lparr>mathCalls := 4, occupiedGridCells := {(8, - 2), (4, - 2)}\<rparr>) \<and>
   distinct (map gridKey [(360, - 100), (660, - 100)]) \<and>
   gridKey (360, - 100) \<notin> occupiedGridCells (spawnLetters 200 (Some 25) 1000 initialState)"
  using grid_results_claim_distinct_cells
    [of V1 stepEnv "spawnLetters 200 (Some 25) 1000 initialState" "[0, 0]"] step_positions
  by simp

text \<open>
  The default position can repeat a cell. With random numbers that are all 0 the
  first call of the first copy takes the cell \<open>(4, -2)\<close>; the second call finds it
  occupied 25 times and returns the default position \<open>(360, -100)\<close>, in the same cell.
\<close>

lemma default_position_repeats_cell:
  "fst (getUniquePositions V1 quietEnv [0, 0] (spawnLetters 200 (Some 25) 1000 initialState)) =
     [Grid (360, - 100), Default (360, - 100)]"
proof -
  let ?st0 = "spawnLetters 200 (Some 25) 1000 initialState"
  let ?st1 = "?st0\<lparr>mathCalls := 2, occupiedGridCells := {(4, - 2)}\<rparr>"
  have "\<forall>j. 0 + j < maxAttempts V1 \<longrightarrow>
          gridKey (attemptPosition V1 quietEnv ?st1 j) \<in> occupiedGridCells ?st1"
    by (simp add: spawnLetters_def initialState_def setInterval_def quietEnv_def
      attemptPosition_def gridPosition_def gridKey_def gridSize_def spacing_def
      spawnAreaWidth_def maxHeightAboveViewport_def)
  from loop_Default[OF this, of 25]
  have "fst (getUniquePosition V1 quietEnv ?st1) = Default (360, - 100)"
    by (simp add: getUniquePosition_def spawnLetters_def initialState_def setInterval_def
        quietEnv_def defaultPosition_def spawnAreaWidth_def maxHeightAboveViewport_def)
  then show ?thesis
    by (simp add: quiet_first_position split_beta)
qed

section \<open>Properties of spawnLetters\<close>

text \<open>
  Claim C8. A call of \<open>spawnLetters\<close> after another call of it, with any arguments,
  changes nothing: two calls leave the state that the first call leaves. When the
  flag is not set, the call sets it and starts one interval, whose identifier it
  keeps, and leaves the world and the timers that were running as they were. When the
  flag is set, whatever has happened since it was set, the call returns the state
  unchanged.
\<close>

theorem spawnLetters_idempotent:
  "spawnLetters a b w (spawnLetters c d w' st) = spawnLetters c d w' st \<and>
   (\<not> lettersSpawned st \<longrightarrow>
      lettersSpawned (spawnLetters c d w' st) \<and>
      spawnIntervalId (spawnLetters c d w' st) = nextTimerId st \<and>
      activeTimers (spawnLetters c d w' st) = insert (nextTimerId st) (activeTimers st) \<and>
      nextTimerId (spawnLetters c d w' st) = Suc (nextTimerId st) \<and>
      lettersSpawnedCount (spawnLetters c d w' st) = 0 \<and>
      totalLetters (spawnLetters c d w' st) = c \<and>
      world (spawnLetters c d w' st) = world st) \<and>
   (lettersSpawned st \<longrightarrow> spawnLetters a b w st = st)"
  by (simp add: spawnLetters_def setInterval_def Let_def)

text \<open>
  The two calls of the second copy, from the initial state: the second call, without
  a delay, changes nothing, and one interval is running.
\<close>

theorem spawnLetters_idempotent_witness:
  "\<not> lettersSpawned initialState \<and>
   lettersSpawned (spawnLetters 200 (Some 50) 1000 initialState) \<and>
   spawnLetters 200 None 1000 (spawnLetters 200 (Some 50) 1000 initialState) =
     spawnLetters 200 (Some 50) 1000 initialState \<and>
   activeTimers (spawnLetters 200 None 1000 (spawnLetters 200 (Some 50) 1000 initialState)) = {0}"
  using spawnLetters_idempotent [of 200 None 1000 200 "Some 50" 1000 initialState]
  by (simp add: initialState_def)

section \<open>Properties of the forces\<close>

lemma Vector_magnitude_zero_iff: "Vector_magnitude a = 0 \<longleftrightarrow> a = (0, 0)"
  by (cases a) (simp add: Vector_magnitude_def sum_squares_eq_zero_iff)

lemma Vector_magnitude_mult: "Vector_magnitude (Vector_mult a s) = Vector_magnitude a * \<bar>s\<bar>"
proof -
  have "fst a * s * (fst a * s) + snd a * s * (snd a * s) =
          (fst a * fst a + snd a * snd a) * (s * s)"
    by (simp add: algebra_simps)
  then show ?thesis
    by (simp add: Vector_magnitude_def Vector_mult_def real_sqrt_mult)
qed

lemma Vector_magnitude_normalise:
  assumes "a \<noteq> (0, 0)"
  shows "Vector_magnitude (Vector_normalise a) = 1"
proof -
  let ?m = "Vector_magnitude a"
  from assms have m: "?m \<noteq> 0" by (simp add: Vector_magnitude_zero_iff)
  have sq: "?m * ?m = fst a * fst a + snd a * snd a"
    by (simp add: Vector_magnitude_def)
  have "fst a / ?m * (fst a / ?m) + snd a / ?m * (snd a / ?m) =
          (fst a * fst a + snd a * snd a) / (?m * ?m)"
    by (simp add: add_divide_distrib)
  also have "\<dots> = (?m * ?m) / (?m * ?m)" by (simp only: sq)
  also have "\<dots> = 1" using m by simp
  finally have "sqrt (fst a / ?m * (fst a / ?m) + snd a / ?m * (snd a / ?m)) = 1"
    by simp
  with m show ?thesis
    by (simp add: Vector_normalise_def Let_def Vector_magnitude_def)
qed

lemma Body_applyForce_at_position:
  "Body_applyForce b (position b) f =
     b\<lparr>force := (fst (force b) + fst f, snd (force b) + snd f)\<rparr>"
  by (simp add: Body_applyForce_def)

lemma repelLetter_far:
  "75 \<le> Vector_magnitude (Vector_sub (position b) m) \<Longrightarrow> repelLetter m b = b"
  by (simp add: repelLetter_def)

lemma repelLetter_near:
  "Vector_magnitude (Vector_sub (position b) m) < 75 \<Longrightarrow>
     repelLetter m b =
       Body_applyForce b (position b)
         (Vector_mult (Vector_normalise (Vector_sub (position b) m))
            (0.001 * (100 - Vector_magnitude (Vector_sub (position b) m))))"
  by (simp add: repelLetter_def Let_def)

lemma repelLetter_force:
  assumes "0 < Vector_magnitude (Vector_sub (position b) m)"
    and "Vector_magnitude (Vector_sub (position b) m) < 75"
  shows "Vector_magnitude (Vector_sub (force (repelLetter m b)) (force b)) =
           0.001 * (100 - Vector_magnitude (Vector_sub (position b) m))"
proof -
  let ?d = "Vector_sub (position b) m"
  let ?f = "Vector_mult (Vector_normalise ?d) (0.001 * (100 - Vector_magnitude ?d))"
  from assms(1) have "?d \<noteq> (0, 0)"
    using Vector_magnitude_zero_iff[of ?d] by auto
  then have n: "Vector_magnitude (Vector_normalise ?d) = 1"
    by (rule Vector_magnitude_normalise)
  have "Vector_sub (force (repelLetter m b)) (force b) = ?f"
    using assms(2) by (simp add: repelLetter_near Body_applyForce_at_position Vector_sub_def)
  then have "Vector_magnitude (Vector_sub (force (repelLetter m b)) (force b)) =
               \<bar>0.001 * (100 - Vector_magnitude ?d)\<bar>"
    by (simp add: Vector_magnitude_mult n)
  with assms(2) show ?thesis by simp
qed

text \<open>
  Claim C5. For every body of the world, with \<open>d\<close> its distance to the mouse:
  when \<open>d < 75\<close>, \<open>repelLetters\<close> replaces the body by the result of
  \<open>Body.applyForce\<close> at its own position, with the force of size \<open>0.001 * (100 - d)\<close>
  that points from the mouse to the body (when \<open>0 < d\<close> this is not the null force, so
  the force of the body changes); when \<open>d \<ge> 75\<close>, the body is left as it is. The
  number of bodies and every other part of the state stay the same.
\<close>

theorem repelLetters_only_nearby:
  assumes "i < length (world st)"
  shows "let b = world st ! i;
             d = Vector_magnitude (Vector_sub (position b) m);
             b' = world (repelLetters m st) ! i
         in repelLetters m st = st\<lparr>world := world (repelLetters m st)\<rparr> \<and>
            length (world (repelLetters m st)) = length (world st) \<and>
            (d < 75 \<longrightarrow>
               b' = Body_applyForce b (position b)
                      (Vector_mult (Vector_normalise (Vector_sub (position b) m))
                         (0.001 * (100 - d)))) \<and>
            (0 < d \<and> d < 75 \<longrightarrow>
               Vector_magnitude (Vector_sub (force b') (force b)) = 0.001 * (100 - d) \<and>
               force b' \<noteq> force b) \<and>
            (75 \<le> d \<longrightarrow> b' = b)"
proof -
  let ?b = "world st ! i"
  let ?d = "Vector_magnitude (Vector_sub (position ?b) m)"
  have b': "world (repelLetters m st) ! i = repelLetter m ?b"
    using assms by (simp add: repelLetters_def)
  have changed: "force (repelLetter m ?b) \<noteq> force ?b" if "0 < ?d" "?d < 75"
  proof
    assume "force (repelLetter m ?b) = force ?b"
    then have "Vector_magnitude (Vector_sub (force (repelLetter m ?b)) (force ?b)) = 0"
      by (simp add: Vector_sub_def Vector_magnitude_def)
    with repelLetter_force[OF that] that show False by simp
  qed
  show ?thesis
    unfolding Let_def b'
    using repelLetter_near[of ?b m] repelLetter_far[of ?b m] repelLetter_force[of ?b m] changed
    by (simp add: repelLetters_def)
qed

lemma Vector_magnitude_x: "Vector_magnitude (x, 0) = \<bar>x\<bar>"
  by (simp add: Vector_magnitude_def)

text \<open>
  The mouse at the origin, one letter 30 to the right of it and one 100: the first
  gets the force \<open>(0.07, 0)\<close>, the second is left alone.
\<close>

theorem repelLetters_only_nearby_witness:
  "world (repelLetters (0, 0) (initialState\<lparr>world := [letterAt (30, 0), letterAt (100, 0)]\<rparr>)) =
     [(letterAt (30, 0))\<lparr>force := (0.07, 0)\<rparr>, letterAt (100, 0)]"
proof -
  let ?st = "initialState\<lparr>world := [letterAt (30, 0), letterAt (100, 0)]\<rparr>"
  have l: "length (world ?st) = 2" by simp
  have d0: "Vector_magnitude (Vector_sub (position (world ?st ! 0)) (0, 0)) = 30"
    by (simp add: letterAt_def Vector_sub_def Vector_magnitude_x)
  have d1: "Vector_magnitude (Vector_sub (position (world ?st ! 1)) (0, 0)) = 100"
    by (simp add: letterAt_def Vector_sub_def Vector_magnitude_x)
  have n: "Vector_normalise (30, 0) = (1, 0)"
    by (simp add: Vector_normalise_def Vector_magnitude_x)
  have "world (repelLetters (0, 0) ?st) ! 0 = (letterAt (30, 0))\<lparr>force := (0.07, 0)\<rparr>"
    using repelLetters_only_nearby [of 0 ?st "(0, 0)"] d0
    by (simp add: Let_def Body_applyForce_at_position)
       (simp add: letterAt_def Vector_sub_def Vector_mult_def n)
  moreover have "world (repelLetters (0, 0) ?st) ! 1 = letterAt (100, 0)"
    using repelLetters_only_nearby [of 1 ?st "(0, 0)"] d1
    by (simp add: Let_def)
  moreover have "length (world (repelLetters (0, 0) ?st)) = 2"
    by (simp add: repelLetters_def)
  ultimately show ?thesis
    by (simp add: list_eq_iff_nth_eq nth_Cons' less_Suc_eq numeral_2_eq_2)
qed




section \<open>Properties of spawnLetter\<close>

declare spawnLetter_loop.simps [simp del]

lemma spawnLetter_loop_stop:
  "\<not> (i < maxAttempts V1 \<and> \<not> found) \<Longrightarrow>
     spawnLetter_loop e vs i nb found st = (None, nb, found, st)"
  by (subst spawnLetter_loop.simps) auto

lemma spawnLetter_loop_throw:
  assumes "i < maxAttempts V1" "\<not> found"
    and "getUniquePosition V1 e st = (pos, st1)"
    and "createLetter e (coords pos) vs st1 = (Inl err, st2)"
  shows "spawnLetter_loop e vs i nb found st = (Some err, nb, found, st2)"
  using assms by (subst spawnLetter_loop.simps) simp

lemma spawnLetter_loop_step:
  assumes "i < maxAttempts V1" "\<not> found"
    and "getUniquePosition V1 e st = (pos, st1)"
    and "createLetter e (coords pos) vs st1 = (Inr b, st2)"
  shows "spawnLetter_loop e vs i nb found st =
           spawnLetter_loop e vs (i + 1)
             (Some (Body_rotate b (mathRandom e (mathCalls st2) * 2 * pi)))
             (\<not> doesOverlap e (st2\<lparr>mathCalls := Suc (mathCalls st2)\<rparr>)
                  (Body_rotate b (mathRandom e (mathCalls st2) * 2 * pi)))
             (st2\<lparr>mathCalls := Suc (mathCalls st2)\<rparr>)"
  using assms by (subst spawnLetter_loop.simps) (simp add: Math_random_def Let_def)

text \<open>
  An invariant rule for the loop: a property of the pending body, the flag and the
  state that holds at the start and that every iteration keeps holds at the end.
\<close>

lemma spawnLetter_loop_invariant:
  assumes result: "spawnLetter_loop e vs i nb found st = (err, nb', found', st')"
    and start: "P nb found st"
    and throw: "\<And>nb found st pos st1 x st2. P nb found st \<Longrightarrow> \<not> found \<Longrightarrow>
        getUniquePosition V1 e st = (pos, st1) \<Longrightarrow>
        createLetter e (coords pos) vs st1 = (Inl x, st2) \<Longrightarrow> P nb found st2"
    and step: "\<And>nb found st pos st1 b st2. P nb found st \<Longrightarrow> \<not> found \<Longrightarrow>
        getUniquePosition V1 e st = (pos, st1) \<Longrightarrow>
        createLetter e (coords pos) vs st1 = (Inr b, st2) \<Longrightarrow>
        P (Some (Body_rotate b (mathRandom e (mathCalls st2) * 2 * pi)))
          (\<not> doesOverlap e (st2\<lparr>mathCalls := Suc (mathCalls st2)\<rparr>)
                  (Body_rotate b (mathRandom e (mathCalls st2) * 2 * pi)))
          (st2\<lparr>mathCalls := Suc (mathCalls st2)\<rparr>)"
  shows "P nb' found' st'"
  using result start
proof (induction "maxAttempts V1 - i" arbitrary: i nb found st)
  case 0
  then have "\<not> (i < maxAttempts V1 \<and> \<not> found)" by simp
  from spawnLetter_loop_stop[OF this] 0 show ?case by simp
next
  case (Suc n)
  show ?case
  proof (cases "i < maxAttempts V1 \<and> \<not> found")
    case False
    from spawnLetter_loop_stop[OF this] Suc.prems show ?thesis by simp
  next
    case True
    obtain pos st1 where g: "getUniquePosition V1 e st = (pos, st1)"
      by (cases "getUniquePosition V1 e st")
    obtain c st2 where c: "createLetter e (coords pos) vs st1 = (c, st2)"
      by (cases "createLetter e (coords pos) vs st1")
    show ?thesis
    proof (cases c)
      case (Inl x)
      with True g c have "spawnLetter_loop e vs i nb found st = (Some x, nb, found, st2)"
        by (intro spawnLetter_loop_throw) simp_all
      with Suc.prems(1) have "nb' = nb" "found' = found" "st' = st2"
        by simp_all
      moreover from throw[OF Suc.prems(2) _ g] c Inl True have "P nb found st2" by simp
      ultimately show ?thesis by simp
    next
      case (Inr b)
      let ?b = "Body_rotate b (mathRandom e (mathCalls st2) * 2 * pi)"
      let ?st3 = "st2\<lparr>mathCalls := Suc (mathCalls st2)\<rparr>"
      from True g c Inr have "spawnLetter_loop e vs i nb found st =
          spawnLetter_loop e vs (i + 1) (Some ?b) (\<not> doesOverlap e ?st3 ?b) ?st3"
        by (intro spawnLetter_loop_step) simp_all
      with Suc.prems(1) have r: "spawnLetter_loop e vs (i + 1) (Some ?b)
          (\<not> doesOverlap e ?st3 ?b) ?st3 = (err, nb', found', st')" by simp
      from step[OF Suc.prems(2) _ g] c Inr True
      have p: "P (Some ?b) (\<not> doesOverlap e ?st3 ?b) ?st3" by simp
      from Suc.hyps(2) have "n = maxAttempts V1 - (i + 1)" by simp
      from Suc.hyps(1)[OF this r p] show ?thesis .
    qed
  qed
qed

lemma doesOverlap_loop_iff:
  "doesOverlap_loop e newBody bodies \<longleftrightarrow>
     (\<exists>b \<in> set bodies. \<exists>c. collides e newBody b = Some c \<and> collided c)"
  by (induction bodies) (auto split: option.splits)

lemma not_doesOverlap_iff:
  "\<not> doesOverlap e st newBody \<longleftrightarrow>
     (\<forall>b \<in> set (world st). case collides e newBody b of None \<Rightarrow> True | Some c \<Rightarrow> \<not> collided c)"
  by (auto simp: doesOverlap_def doesOverlap_loop_iff split: option.splits)

lemma onlyDraws_refl: "onlyDraws st st"
  by (simp add: onlyDraws_def)

lemma onlyDraws_trans: "onlyDraws st st1 \<Longrightarrow> onlyDraws st1 st2 \<Longrightarrow> onlyDraws st st2"
  by (simp add: onlyDraws_def)

lemma onlyDraws_getUniquePosition:
  "getUniquePosition v e st = (r, st') \<Longrightarrow> onlyDraws st st'"
  by (cases v e st rule: getUniquePosition_cases) (auto simp: onlyDraws_def)

lemma onlyDraws_createLetter:
  "createLetter e p vs st = (c, st') \<Longrightarrow> onlyDraws st st'"
  by (auto simp: createLetter_def Common_choose_def Common_random_def Let_def onlyDraws_def
      Bodies_fromVertices_def split: option.splits list.splits)

lemma onlyDraws_Math_random: "onlyDraws st (st\<lparr>mathCalls := n\<rparr>)"
  by (simp add: onlyDraws_def)

lemma spawnLetter_loop_onlyDraws:
  assumes "spawnLetter_loop e vs i nb found st = (err, nb', found', st')"
  shows "onlyDraws st st'"
  by (rule spawnLetter_loop_invariant[OF assms, where P = "\<lambda>nb found s. onlyDraws st s"])
     (blast intro: onlyDraws_refl onlyDraws_trans onlyDraws_getUniquePosition
        onlyDraws_createLetter onlyDraws_Math_random)+

lemma spawnLetter_loop_found:
  assumes "spawnLetter_loop e vs i nb found st = (err, nb', found', st')"
    and "found \<longrightarrow> (\<exists>b. nb = Some b \<and> \<not> doesOverlap e st b)"
  shows "found' \<longrightarrow> (\<exists>b. nb' = Some b \<and> \<not> doesOverlap e st b)"
proof -
  have "onlyDraws st st' \<and> (found' \<longrightarrow> (\<exists>b. nb' = Some b \<and> \<not> doesOverlap e st b))"
  proof (rule spawnLetter_loop_invariant[OF assms(1), where P = "\<lambda>nb found s.
            onlyDraws st s \<and> (found \<longrightarrow> (\<exists>b. nb = Some b \<and> \<not> doesOverlap e st b))"])
    show "onlyDraws st st \<and> (found \<longrightarrow> (\<exists>b. nb = Some b \<and> \<not> doesOverlap e st b))"
      using assms(2) by (simp add: onlyDraws_refl)
  next
    fix nb found s pos s1 x s2
    assume "onlyDraws st s \<and> (found \<longrightarrow> (\<exists>b. nb = Some b \<and> \<not> doesOverlap e st b))"
      and "getUniquePosition V1 e s = (pos, s1)"
      and "createLetter e (coords pos) vs s1 = (Inl x, s2)"
    then show "onlyDraws st s2 \<and> (found \<longrightarrow> (\<exists>b. nb = Some b \<and> \<not> doesOverlap e st b))"
      by (blast intro: onlyDraws_trans onlyDraws_getUniquePosition onlyDraws_createLetter)
  next
    fix nb found s pos s1 b s2
    assume s: "onlyDraws st s \<and> (found \<longrightarrow> (\<exists>b. nb = Some b \<and> \<not> doesOverlap e st b))"
      and g: "getUniquePosition V1 e s = (pos, s1)"
      and c: "createLetter e (coords pos) vs s1 = (Inr b, s2)"
    let ?b = "Body_rotate b (mathRandom e (mathCalls s2) * 2 * pi)"
    let ?s3 = "s2\<lparr>mathCalls := Suc (mathCalls s2)\<rparr>"
    from s g c have o: "onlyDraws st ?s3"
      by (blast intro: onlyDraws_trans onlyDraws_getUniquePosition
          onlyDraws_createLetter onlyDraws_Math_random)
    then have "doesOverlap e ?s3 ?b = doesOverlap e st ?b"
      by (simp add: doesOverlap_def onlyDraws_def)
    with o show "onlyDraws st ?s3 \<and>
        (\<not> doesOverlap e ?s3 ?b \<longrightarrow> (\<exists>b. Some ?b = Some b \<and> \<not> doesOverlap e st b))"
      by simp
  qed
  then show ?thesis ..
qed

lemma Common_choose_single:
  assumes "0 \<le> commonRandom e (commonCalls st)" "commonRandom e (commonCalls st) < 1"
  shows "fst (Common_choose e [c] st) = Some c"
proof -
  from assms have "\<lfloor>commonRandom e (commonCalls st)\<rfloor> = 0"
    by (simp add: floor_eq_iff)
  with assms show ?thesis
    by (simp add: Common_choose_def Common_random_def index_def)
qed

lemma createLetter_styles:
  assumes "\<forall>n. 0 \<le> commonRandom e n \<and> commonRandom e n < 1"
    and "createLetter e p vs st = (Inr b, st')"
  shows "fillStyle (render b) = Some ''#CF6337'' \<and> strokeStyle (render b) = Some ''#CF6337''"
proof -
  from assms(1) have "fst (Common_choose e [''#CF6337''] st) = Some ''#CF6337''"
    by (intro Common_choose_single) simp_all
  with assms(2) show ?thesis
    by (auto simp: createLetter_def Bodies_fromVertices_def split_beta
        split: option.splits list.splits)
qed

lemma spawnLetter_loop_styles:
  assumes "spawnLetter_loop e vs i nb found st = (err, nb', found', st')"
    and "\<forall>n. 0 \<le> commonRandom e n \<and> commonRandom e n < 1"
    and "\<forall>b. nb = Some b \<longrightarrow>
           fillStyle (render b) = Some ''#CF6337'' \<and> strokeStyle (render b) = Some ''#CF6337''"
  shows "\<forall>b. nb' = Some b \<longrightarrow>
           fillStyle (render b) = Some ''#CF6337'' \<and> strokeStyle (render b) = Some ''#CF6337''"
proof (rule spawnLetter_loop_invariant[OF assms(1), where P = "\<lambda>nb found s. \<forall>b. nb = Some b \<longrightarrow>
           fillStyle (render b) = Some ''#CF6337'' \<and> strokeStyle (render b) = Some ''#CF6337''"])
  fix nb found s pos s1 b s2
  assume "createLetter e (coords pos) vs s1 = (Inr b, s2)"
  from createLetter_styles[OF assms(2) this]
  show "\<forall>b'. Some (Body_rotate b (mathRandom e (mathCalls s2) * 2 * pi)) = Some b' \<longrightarrow>
           fillStyle (render b') = Some ''#CF6337'' \<and> strokeStyle (render b') = Some ''#CF6337''"
    by (simp add: Body_rotate_def)
qed (use assms(3) in simp_all)

lemma stopWhenDone_below:
  "real (lettersSpawnedCount st) < totalLetters st \<Longrightarrow> stopWhenDone st = st"
  by (simp add: stopWhenDone_def)

lemma spawnLetter_V1_cases:
  assumes "spawnLetter_V1 e st = (err, st')"
  obtains (finished) "totalLetters st \<le> real (lettersSpawnedCount st)" "err = None" "st' = st"
  | (kept) "real (lettersSpawnedCount st) < totalLetters st" "onlyDraws st st'"
  | (added) b s where "real (lettersSpawnedCount st) < totalLetters st" "err = None"
      "onlyDraws st s" "\<not> doesOverlap e st b"
      "(\<forall>n. 0 \<le> commonRandom e n \<and> commonRandom e n < 1) \<longrightarrow>
         fillStyle (render b) = Some ''#CF6337'' \<and> strokeStyle (render b) = Some ''#CF6337''"
      "st' = stopWhenDone (s\<lparr>world := world s @ [b],
                               lettersSpawnedCount := Suc (lettersSpawnedCount s)\<rparr>)"
proof (cases "totalLetters st \<le> real (lettersSpawnedCount st)")
  case True
  with assms show ?thesis by (intro finished) (simp_all add: spawnLetter_V1_def)
next
  case False
  then have below: "real (lettersSpawnedCount st) < totalLetters st" by simp
  let ?st1 = "st\<lparr>mathCalls := Suc (mathCalls st)\<rparr>"
  let ?vs = "index (loadedVertexSets ?st1)
               \<lfloor>mathRandom e (mathCalls st) * real (length (loadedVertexSets ?st1))\<rfloor>"
  obtain err0 nb found st2 where
    loop: "spawnLetter_loop e ?vs 0 None False ?st1 = (err0, nb, found, st2)"
    by (metis prod_cases4)
  have o1: "onlyDraws st ?st1" by (rule onlyDraws_Math_random)
  from spawnLetter_loop_onlyDraws[OF loop] o1 have o2: "onlyDraws st st2"
    by (blast intro: onlyDraws_trans)
  from o2 below have below2: "real (lettersSpawnedCount st2) < totalLetters st2"
    by (simp add: onlyDraws_def)
  from spawnLetter_loop_found[OF loop]
  have f: "found \<longrightarrow> (\<exists>b. nb = Some b \<and> \<not> doesOverlap e ?st1 b)" by simp
  have styles: "(\<forall>n. 0 \<le> commonRandom e n \<and> commonRandom e n < 1) \<longrightarrow>
     (\<forall>b. nb = Some b \<longrightarrow>
         fillStyle (render b) = Some ''#CF6337'' \<and> strokeStyle (render b) = Some ''#CF6337'')"
    using spawnLetter_loop_styles[OF loop] by simp
  from assms False loop have r: "(err, st') =
     (case err0 of
        Some x \<Rightarrow> (Some x, st2)
      | None \<Rightarrow>
          if found then
            (case nb of
               None \<Rightarrow> (Some TypeError, st2)
             | Some b \<Rightarrow>
                 (None, stopWhenDone (st2\<lparr>world := world st2 @ [b],
                    lettersSpawnedCount := Suc (lettersSpawnedCount st2)\<rparr>)))
          else (None, stopWhenDone st2))"
    by (auto simp: spawnLetter_V1_def Math_random_def Let_def Composite_add_def
        split: option.splits)
  show ?thesis
  proof (cases "err0 = None \<and> found")
    case True
    with f obtain b where b: "nb = Some b" "\<not> doesOverlap e ?st1 b" by blast
    from b(2) have nov: "\<not> doesOverlap e st b" by (simp add: doesOverlap_def)
    from True have e0: "err = None" using r b by simp
    from styles b have sty: "(\<forall>n. 0 \<le> commonRandom e n \<and> commonRandom e n < 1) \<longrightarrow>
         fillStyle (render b) = Some ''#CF6337'' \<and> strokeStyle (render b) = Some ''#CF6337''"
      by simp
    from True r b have "st' = stopWhenDone (st2\<lparr>world := world st2 @ [b],
                               lettersSpawnedCount := Suc (lettersSpawnedCount st2)\<rparr>)"
      by simp
    from added[OF below e0 o2 nov sty this] show ?thesis .
  next
    case False
    with r below2 have "st' = st2"
      by (auto simp: stopWhenDone_below split: option.splits)
    with below o2 show ?thesis by (intro kept) simp_all
  qed
qed

lemma spawnLetter_V2_cases:
  assumes "spawnLetter_V2 e st = (err, st')"
  obtains (finished) "totalLetters st \<le> real (lettersSpawnedCount st)" "err = None" "st' = st"
  | (kept) "real (lettersSpawnedCount st) < totalLetters st" "onlyDraws st st'"
  | (added) b s where "real (lettersSpawnedCount st) < totalLetters st" "err = None"
      "onlyDraws st s"
      "(\<forall>n. 0 \<le> commonRandom e n \<and> commonRandom e n < 1) \<longrightarrow>
         fillStyle (render b) = Some ''#CF6337'' \<and> strokeStyle (render b) = Some ''#CF6337''"
      "st' = stopWhenDone (s\<lparr>world := world s @ [b],
                               lettersSpawnedCount := Suc (lettersSpawnedCount s)\<rparr>)"
proof (cases "totalLetters st \<le> real (lettersSpawnedCount st)")
  case True
  with assms show ?thesis by (intro finished) (simp_all add: spawnLetter_V2_def)
next
  case False
  then have below: "real (lettersSpawnedCount st) < totalLetters st" by simp
  let ?st1 = "st\<lparr>mathCalls := Suc (mathCalls st)\<rparr>"
  let ?vs = "index (loadedVertexSets ?st1)
               \<lfloor>mathRandom e (mathCalls st) * real (length (loadedVertexSets ?st1))\<rfloor>"
  obtain pos st2 where g: "getUniquePosition V2 e ?st1 = (pos, st2)"
    by (cases "getUniquePosition V2 e ?st1")
  obtain c st3 where c: "createLetter e (coords pos) ?vs st2 = (c, st3)"
    by (cases "createLetter e (coords pos) ?vs st2")
  have "onlyDraws st ?st1" by (rule onlyDraws_Math_random)
  with onlyDraws_getUniquePosition[OF g] onlyDraws_createLetter[OF c]
  have o3: "onlyDraws st st3" by (blast intro: onlyDraws_trans)
  from assms False g c have r: "(err, st') =
     (case c of
        Inl x \<Rightarrow> (Some x, st3)
      | Inr b \<Rightarrow> (None, stopWhenDone (st3\<lparr>world := world st3 @ [b],
                    lettersSpawnedCount := Suc (lettersSpawnedCount st3)\<rparr>)))"
    by (auto simp: spawnLetter_V2_def Math_random_def Let_def Composite_add_def
        split: sum.splits)
  show ?thesis
  proof (cases c)
    case (Inl x)
    with r below o3 show ?thesis by (intro kept) simp_all
  next
    case (Inr b)
    with c have sty: "(\<forall>n. 0 \<le> commonRandom e n \<and> commonRandom e n < 1) \<longrightarrow>
         fillStyle (render b) = Some ''#CF6337'' \<and> strokeStyle (render b) = Some ''#CF6337''"
      using createLetter_styles[of e "coords pos" ?vs st2 b st3] by simp
    from Inr r have e0: "err = None" by simp
    from Inr r have "st' = stopWhenDone (st3\<lparr>world := world st3 @ [b],
                               lettersSpawnedCount := Suc (lettersSpawnedCount st3)\<rparr>)"
      by simp
    from added[OF below e0 o3 sty this] show ?thesis .
  qed
qed

lemma stopWhenDone_fields:
  "world (stopWhenDone s) = world s" "lettersSpawnedCount (stopWhenDone s) = lettersSpawnedCount s"
  "totalLetters (stopWhenDone s) = totalLetters s" "spawnIntervalId (stopWhenDone s) = spawnIntervalId s"
  "lettersSpawned (stopWhenDone s) = lettersSpawned s"
  "activeTimers (stopWhenDone s) =
     (if totalLetters s \<le> real (lettersSpawnedCount s)
      then activeTimers s - {spawnIntervalId s} else activeTimers s)"
  by (simp_all add: stopWhenDone_def clearInterval_def)

lemma spawnLetter_added_step:
  assumes "real (lettersSpawnedCount st) < totalLetters st" "err = None"
      "onlyDraws st s"
      "(\<forall>n. 0 \<le> commonRandom e n \<and> commonRandom e n < 1) \<longrightarrow>
         fillStyle (render b) = Some ''#CF6337'' \<and> strokeStyle (render b) = Some ''#CF6337''"
      "st' = stopWhenDone (s\<lparr>world := world s @ [b],
                               lettersSpawnedCount := Suc (lettersSpawnedCount s)\<rparr>)"
  shows "totalLetters st' = totalLetters st \<and> spawnIntervalId st' = spawnIntervalId st \<and>
     lettersSpawned st' = lettersSpawned st \<and>
     ((lettersSpawnedCount st' = lettersSpawnedCount st \<and> world st' = world st \<and>
       activeTimers st' = activeTimers st) \<or>
      (real (lettersSpawnedCount st) < totalLetters st \<and> err = None \<and>
       lettersSpawnedCount st' = Suc (lettersSpawnedCount st) \<and>
       (\<exists>b. world st' = world st @ [b] \<and>
          ((\<forall>n. 0 \<le> commonRandom e n \<and> commonRandom e n < 1) \<longrightarrow>
            fillStyle (render b) = Some ''#CF6337'' \<and>
            strokeStyle (render b) = Some ''#CF6337'')) \<and>
       activeTimers st' =
         (if totalLetters st \<le> real (Suc (lettersSpawnedCount st))
          then activeTimers st - {spawnIntervalId st} else activeTimers st)))"
proof -
  from assms(3) have s: "world s = world st" "lettersSpawnedCount s = lettersSpawnedCount st"
    "totalLetters s = totalLetters st" "spawnIntervalId s = spawnIntervalId st"
    "lettersSpawned s = lettersSpawned st" "activeTimers s = activeTimers st"
    by (simp_all add: onlyDraws_def)
  have "world st' = world st @ [b]" "lettersSpawnedCount st' = Suc (lettersSpawnedCount st)"
    "totalLetters st' = totalLetters st" "spawnIntervalId st' = spawnIntervalId st"
    "lettersSpawned st' = lettersSpawned st"
    "activeTimers st' =
         (if totalLetters st \<le> real (Suc (lettersSpawnedCount st))
          then activeTimers st - {spawnIntervalId st} else activeTimers st)"
    unfolding assms(5) stopWhenDone_fields by (simp_all add: s)
  with assms(1,2,4) show ?thesis by blast
qed

lemma spawnLetter_step:
  assumes "spawnLetter v e st = (err, st')"
  shows "totalLetters st' = totalLetters st \<and> spawnIntervalId st' = spawnIntervalId st \<and>
     lettersSpawned st' = lettersSpawned st \<and>
     ((lettersSpawnedCount st' = lettersSpawnedCount st \<and> world st' = world st \<and>
       activeTimers st' = activeTimers st) \<or>
      (real (lettersSpawnedCount st) < totalLetters st \<and> err = None \<and>
       lettersSpawnedCount st' = Suc (lettersSpawnedCount st) \<and>
       (\<exists>b. world st' = world st @ [b] \<and>
          ((\<forall>n. 0 \<le> commonRandom e n \<and> commonRandom e n < 1) \<longrightarrow>
            fillStyle (render b) = Some ''#CF6337'' \<and>
            strokeStyle (render b) = Some ''#CF6337'')) \<and>
       activeTimers st' =
         (if totalLetters st \<le> real (Suc (lettersSpawnedCount st))
          then activeTimers st - {spawnIntervalId st} else activeTimers st)))"
proof (cases v)
  case V1
  with assms have "spawnLetter_V1 e st = (err, st')" by simp
  then show ?thesis
  proof (cases rule: spawnLetter_V1_cases)
    case finished
    then show ?thesis by simp
  next
    case kept
    then show ?thesis by (simp add: onlyDraws_def)
  next
    case (added b s)
    from added(1,2,3,5,6) show ?thesis by (rule spawnLetter_added_step)
  qed
next
  case V2
  with assms have "spawnLetter_V2 e st = (err, st')" by simp
  then show ?thesis
  proof (cases rule: spawnLetter_V2_cases)
    case finished
    then show ?thesis by simp
  next
    case kept
    then show ?thesis by (simp add: onlyDraws_def)
  next
    case (added b s)
    then show ?thesis by (rule spawnLetter_added_step)
  qed
qed




lemma getUniquePosition_first_free:
  assumes "gridKey (attemptPosition v e st 0) \<notin> occupiedGridCells st"
  shows "getUniquePosition v e st =
     (Grid (attemptPosition v e st 0),
      st\<lparr>mathCalls := mathCalls st + 2,
         occupiedGridCells := insert (gridKey (attemptPosition v e st 0)) (occupiedGridCells st)\<rparr>)"
proof -
  have "0 + 0 < maxAttempts v" by (cases v) simp_all
  from loop_Grid[OF this _ assms] show ?thesis
    by (simp add: getUniquePosition_def)
qed

lemma getUniquePosition_all_occupied:
  assumes "\<forall>j<maxAttempts v. gridKey (attemptPosition v e st j) \<in> occupiedGridCells st"
  shows "getUniquePosition v e st =
     (Default (defaultPosition v (viewportWidth st)
                 (mathRandom e (mathCalls st + 2 * maxAttempts v))
                 (mathRandom e (mathCalls st + 2 * maxAttempts v + 1))),
      st\<lparr>mathCalls := mathCalls st + 2 * maxAttempts v + 2\<rparr>)"
  using loop_Default[of 0 v e st "maxAttempts v"] assms
  by (simp add: getUniquePosition_def)

lemmas quiet_defs =
  quietEnv_def touchEnv_def loadedState_def initialState_def spawnLetters_def setInterval_def
  attemptPosition_def gridPosition_def defaultPosition_def gridKey_def gridSize_def spacing_def
  spawnAreaWidth_def maxHeightAboveViewport_def createLetter_def Common_choose_def
  Common_random_def index_def Bodies_fromVertices_def Composite_add_def stopWhenDone_def
  clearInterval_def Math_random_def letterAt_def

lemma touch_first_V2:
  "spawnLetter V2 touchEnv (spawnLetters 200 (Some 50) 1000 loadedState) =
     (None, (spawnLetters 200 (Some 50) 1000 loadedState)
        \<lparr>mathCalls := 3, commonCalls := 2, world := [letterAt (400, - 20)],
         lettersSpawnedCount := 1, occupiedGridCells := {(5, - 1)}\<rparr>)"
  by (simp add: spawnLetter_V2_def getUniquePosition_first_free quiet_defs)

lemma touch_second_V2:
  "spawnLetter V2 touchEnv ((spawnLetters 200 (Some 50) 1000 loadedState)
        \<lparr>mathCalls := 3, commonCalls := 2, world := [letterAt (400, - 20)],
         lettersSpawnedCount := 1, occupiedGridCells := {(5, - 1)}\<rparr>) =
     (None, (spawnLetters 200 (Some 50) 1000 loadedState)
        \<lparr>mathCalls := 206, commonCalls := 4,
         world := [letterAt (400, - 20), letterAt (400, - 20)],
         lettersSpawnedCount := 2, occupiedGridCells := {(5, - 1)}\<rparr>)"
  by (simp add: spawnLetter_V2_def getUniquePosition_all_occupied quiet_defs)

text \<open>
  Claim C1, as it holds. In the first copy, an invocation of \<open>spawnLetter\<close> either
  leaves the world as it is or adds one body at its end, and that body does not
  overlap: \<open>Collision.collides\<close> of it and any body of the world yields \<open>null\<close> or a
  record that is not \<open>collided\<close>. The world is the same when the check runs and when
  the body is added, since nothing in between changes it.
\<close>

theorem spawnLetter_V1_adds_free_body:
  assumes "spawnLetter V1 e st = (err, st')"
  shows "world st' = world st \<or>
         (\<exists>b. world st' = world st @ [b] \<and> \<not> doesOverlap e st b \<and>
              (\<forall>b0 \<in> set (world st).
                  case collides e b b0 of None \<Rightarrow> True | Some c \<Rightarrow> \<not> collided c))"
proof -
  from assms have "spawnLetter_V1 e st = (err, st')" by simp
  then show ?thesis
  proof (cases rule: spawnLetter_V1_cases)
    case finished
    then show ?thesis by simp
  next
    case kept
    then show ?thesis by (simp add: onlyDraws_def)
  next
    case (added b s)
    from added(3,6) have "world st' = world st @ [b]"
      by (simp add: onlyDraws_def stopWhenDone_def clearInterval_def)
    with added(4) show ?thesis
      using not_doesOverlap_iff[of e st b] by blast
  qed
qed

lemma touch_first_V1:
  "spawnLetter V1 touchEnv
     ((spawnLetters 200 (Some 25) 1000 loadedState)\<lparr>world := [letterAt (700, - 100)]\<rparr>) =
     (None, (spawnLetters 200 (Some 25) 1000 loadedState)
        \<lparr>mathCalls := 4, commonCalls := 2,
         world := [letterAt (700, - 100), letterAt (360, - 100)],
         lettersSpawnedCount := 1, occupiedGridCells := {(4, - 2)}\<rparr>)"
  by (simp add: spawnLetter_V1_def spawnLetter_loop.simps[of _ _ 0]
      spawnLetter_loop.simps[of _ _ "Suc 0"] getUniquePosition_first_free quiet_defs
      doesOverlap_def Body_rotate_def)

text \<open>
  One letter at \<open>(700, -100)\<close> in the world and a collision test that reports bodies
  with the same position: the first copy adds a letter at \<open>(360, -100)\<close>.
\<close>

theorem spawnLetter_V1_adds_free_body_witness:
  "world (snd (spawnLetter V1 touchEnv
     ((spawnLetters 200 (Some 25) 1000 loadedState)\<lparr>world := [letterAt (700, - 100)]\<rparr>))) =
     [letterAt (700, - 100), letterAt (360, - 100)] \<and>
   collides touchEnv (letterAt (360, - 100)) (letterAt (700, - 100)) = None"
  using spawnLetter_V1_adds_free_body [OF touch_first_V1] touch_first_V1
  by (simp add: touchEnv_def letterAt_def)

text \<open>
  The claim fails in the second copy, which has no collision check. With random
  numbers that are all 0, the first invocation puts a letter at \<open>(400, -20)\<close>; the
  second finds that cell occupied 100 times, takes the default position, which is
  \<open>(400, -20)\<close> again, and adds a second letter there, on top of the first.
\<close>

theorem spawnLetter_V2_adds_overlapping_body:
  "world (spawnLetter_times V2 touchEnv 1 (spawnLetters 200 (Some 50) 1000 loadedState)) =
     [letterAt (400, - 20)] \<and>
   world (spawnLetter_times V2 touchEnv 2 (spawnLetters 200 (Some 50) 1000 loadedState)) =
     [letterAt (400, - 20), letterAt (400, - 20)] \<and>
   collides touchEnv (letterAt (400, - 20)) (letterAt (400, - 20)) = Some \<lparr>collided = True\<rparr> \<and>
   doesOverlap touchEnv
     (spawnLetter_times V2 touchEnv 1 (spawnLetters 200 (Some 50) 1000 loadedState))
     (letterAt (400, - 20))"
proof -
  have c: "collides touchEnv (letterAt (400, - 20)) (letterAt (400, - 20)) = Some \<lparr>collided = True\<rparr>"
    by (simp add: touchEnv_def)
  have 1: "spawnLetter_times V2 touchEnv 1 (spawnLetters 200 (Some 50) 1000 loadedState) =
        (spawnLetters 200 (Some 50) 1000 loadedState)
        \<lparr>mathCalls := 3, commonCalls := 2, world := [letterAt (400, - 20)],
         lettersSpawnedCount := 1, occupiedGridCells := {(5, - 1)}\<rparr>"
    using touch_first_V2 by simp
  have 2: "spawnLetter_times V2 touchEnv 2 (spawnLetters 200 (Some 50) 1000 loadedState) =
        (spawnLetters 200 (Some 50) 1000 loadedState)
        \<lparr>mathCalls := 206, commonCalls := 4,
         world := [letterAt (400, - 20), letterAt (400, - 20)],
         lettersSpawnedCount := 2, occupiedGridCells := {(5, - 1)}\<rparr>"
    using touch_first_V2 touch_second_V2 by (simp add: numeral_2_eq_2)
  show ?thesis
    unfolding 1 2 using c by (simp add: doesOverlap_def)
qed


lemma quiet_first_V2:
  "spawnLetter V2 quietEnv (spawnLetters 1 (Some 50) 1000 loadedState) =
     (None, (spawnLetters 1 (Some 50) 1000 loadedState)
        \<lparr>mathCalls := 3, commonCalls := 2, world := [letterAt (400, - 20)],
         lettersSpawnedCount := 1, occupiedGridCells := {(5, - 1)}, activeTimers := {}\<rparr>)"
  by (simp add: spawnLetter_V2_def getUniquePosition_first_free quiet_defs)





text \<open>
  Claim C7. Let the generator of the library return numbers in \<open>[0, 1)\<close>. Every body
  that the creation statements of \<open>spawnLetter\<close> yield, at any position, for any
  outline and in any state, has the fill style and the stroke style \<open>#CF6337\<close>; and so
  has every body that an invocation of \<open>spawnLetter\<close>, in either copy, adds to the
  world.
\<close>

theorem spawned_letters_are_coloured:
  assumes "\<forall>n. 0 \<le> commonRandom e n \<and> commonRandom e n < 1"
  shows "(\<forall>b s. createLetter e p vs st = (Inr b, s) \<longrightarrow>
            fillStyle (render b) = Some ''#CF6337'' \<and>
            strokeStyle (render b) = Some ''#CF6337'') \<and>
         (\<forall>b. world (snd (spawnLetter v e st')) = world st' @ [b] \<longrightarrow>
            fillStyle (render b) = Some ''#CF6337'' \<and>
            strokeStyle (render b) = Some ''#CF6337'')"
proof (intro conjI allI impI)
  fix b s assume "createLetter e p vs st = (Inr b, s)"
  from createLetter_styles[OF assms this]
  show "fillStyle (render b) = Some ''#CF6337''" "strokeStyle (render b) = Some ''#CF6337''"
    by simp_all
next
  fix b assume w: "world (snd (spawnLetter v e st')) = world st' @ [b]"
  obtain err s where s: "spawnLetter v e st' = (err, s)"
    by (cases "spawnLetter v e st'")
  from spawnLetter_step[OF s] w s assms
  have "fillStyle (render b) = Some ''#CF6337'' \<and> strokeStyle (render b) = Some ''#CF6337''"
    by auto
  then show "fillStyle (render b) = Some ''#CF6337''" "strokeStyle (render b) = Some ''#CF6337''"
    by simp_all
qed

text \<open>The letter that the second copy adds first, with a generator that returns 0.\<close>

theorem spawned_letters_are_coloured_witness:
  "(\<forall>n. 0 \<le> commonRandom quietEnv n \<and> commonRandom quietEnv n < 1) \<and>
   world (snd (spawnLetter V2 quietEnv (spawnLetters 1 (Some 50) 1000 loadedState))) =
     world (spawnLetters 1 (Some 50) 1000 loadedState) @ [letterAt (400, - 20)] \<and>
   fillStyle (render (letterAt (400, - 20))) = Some ''#CF6337'' \<and>
   strokeStyle (render (letterAt (400, - 20))) = Some ''#CF6337''"
proof -
  have h: "\<forall>n. 0 \<le> commonRandom quietEnv n \<and> commonRandom quietEnv n < 1"
    by (simp add: quietEnv_def)
  have w: "world (snd (spawnLetter V2 quietEnv (spawnLetters 1 (Some 50) 1000 loadedState))) =
     world (spawnLetters 1 (Some 50) 1000 loadedState) @ [letterAt (400, - 20)]"
    unfolding quiet_first_V2
    by (simp add: spawnLetters_def loadedState_def initialState_def setInterval_def)
  from spawned_letters_are_coloured [OF h, of _ _ _ V2 "spawnLetters 1 (Some 50) 1000 loadedState"]
    w h show ?thesis
    by blast
qed

section \<open>Properties of loading\<close>

lemma storeSvgs_V1_result:
  "storeSvgs_V1 e paths st = (err, st') \<Longrightarrow>
     loadedVertexSets st' = loadedVertexSets st @ concat (map (cached e) paths) \<and>
     fetched st' = fetched st \<and> lettersSpawned st' = lettersSpawned st"
proof (induction paths arbitrary: st err st')
  case Nil
  then show ?case by simp
next
  case (Cons path paths)
  obtain err1 st1 where 1: "storeSvg_V1 e path st = (err1, st1)"
    by (cases "storeSvg_V1 e path st")
  obtain err2 st2 where 2: "storeSvgs_V1 e paths st1 = (err2, st2)"
    by (cases "storeSvgs_V1 e paths st1")
  from 1 have "loadedVertexSets st1 = loadedVertexSets st @ cached e path"
      "fetched st1 = fetched st" "lettersSpawned st1 = lettersSpawned st"
    by (auto simp: storeSvg_V1_def cached_def split: option.splits if_splits)
  moreover from Cons.prems 1 2 have "st' = st2" by simp
  ultimately show ?case using Cons.IH[OF 2] by simp
qed

lemma length_cached:
  "length (concat (map (cached e) paths)) =
     length (filter (\<lambda>p. \<exists>d. assets e p = Some d \<and> d \<noteq> []) paths)"
  by (induction paths) (auto simp: cached_def split: option.splits)

text \<open>
  The first copy does what the comment in the script says: each URL is fetched once,
  and the cache gets one entry for each file with at least one path, in whatever
  order the responses arrive.
\<close>

lemma startup_V1_loads_once:
  assumes "distinct arrival" and "set arrival = set svgPaths"
    and "fetched st = []" and "loadedVertexSets st = []"
  shows "fetched (startup_V1 e arrival w st) = svgPaths \<and>
     distinct (fetched (startup_V1 e arrival w st)) \<and>
     length (loadedVertexSets (startup_V1 e arrival w st)) =
       length (filter (\<lambda>p. \<exists>d. assets e p = Some d \<and> d \<noteq> []) svgPaths)"
proof -
  obtain err st1 where l: "loadAllSvgs_V1 e arrival st = (err, st1)"
    by (cases "loadAllSvgs_V1 e arrival st")
  then have s: "storeSvgs_V1 e arrival (st\<lparr>fetched := fetched st @ svgPaths\<rparr>) = (err, st1)"
    by (simp add: loadAllSvgs_V1_def)
  from storeSvgs_V1_result[OF s] assms(3,4)
  have 1: "loadedVertexSets st1 = concat (map (cached e) arrival)" "fetched st1 = svgPaths"
    by simp_all
  have d: "distinct svgPaths" by (simp add: svgPaths_def)
  let ?P = "\<lambda>p. \<exists>d. assets e p = Some d \<and> d \<noteq> []"
  have "distinct (filter ?P arrival)" using assms(1) by simp
  then have "length (filter ?P arrival) = card (set (filter ?P arrival))"
    by (rule distinct_card[symmetric])
  also have "set (filter ?P arrival) = set (filter ?P svgPaths)"
    using assms(2) by auto
  also have "card (set (filter ?P svgPaths)) = length (filter ?P svgPaths)"
    using d by (intro distinct_card) simp
  finally have n: "length (concat (map (cached e) arrival)) = length (filter ?P svgPaths)"
    by (simp add: length_cached)
  have "loadedVertexSets (startup_V1 e arrival w st) = loadedVertexSets st1 \<and>
        fetched (startup_V1 e arrival w st) = fetched st1"
    by (cases err) (simp_all add: startup_V1_def l spawnLetters_def setInterval_def)
  with 1 n d show ?thesis by simp
qed

text \<open>
  Claim C2 fails in the second copy. It calls \<open>loadAllSvgs\<close> twice, so with three files
  of one path each every URL is fetched twice and the cache gets six entries, each
  file's outline twice, in whichever order the two loads complete.
\<close>

theorem startup_V2_loads_twice:
  "fetched (startup_V2 letterEnv firstLoadFirst 1000 initialState) =
     [''./letters/T.svg'', ''./letters/R.svg'', ''./letters/Y.svg'',
      ''./letters/T.svg'', ''./letters/R.svg'', ''./letters/Y.svg''] \<and>
   loadedVertexSets (startup_V2 letterEnv firstLoadFirst 1000 initialState) =
     [[[(0, 0), (10, 0), (5, 10)]], [[(0, 0), (10, 0), (10, 10)]], [[(0, 0), (10, 0), (0, 10)]],
      [[(0, 0), (10, 0), (5, 10)]], [[(0, 0), (10, 0), (10, 10)]], [[(0, 0), (10, 0), (0, 10)]]] \<and>
   length (filter (\<lambda>p. \<exists>d. assets letterEnv p = Some d \<and> d \<noteq> []) svgPaths) = 3"
  by (cases firstLoadFirst)
     (simp_all add: startup_V2_def loaded_V2_def loadAllSvgs_begin_V2_def
       loadAllSvgs_then_V2_def svgPaths_def letterEnv_def quietEnv_def initialState_def
       spawnLetters_def setInterval_def Let_def)

end
